theory Spec2Isabelle
  imports Complex_Main "HOL-Library.AList"
begin

section \<open>JavaScript numbers (IEEE-754 binary64)\<close>

text \<open>
  A JavaScript \<open>number\<close> is a double: NaN, an infinity, the negative zero, or a finite
  value \<open>Fin a\<close> (\<open>Fin 0\<close> is the positive zero). The result of an arithmetic operation is
  the exact result rounded by \<open>rd\<close> to the nearest double, a tie going to the even
  significand, with overflow to an infinity and gradual underflow. The type lets \<open>a\<close> be
  any real; the doubles among them are the values \<open>rd\<close> returns, and what is proved for all
  \<open>a\<close> holds for them.
\<close>

datatype number = NaN | PosInf | NegInf | NegZero | Fin real

text \<open>
  The exponent \<open>e\<close> of a positive real \<open>q\<close>: the \<open>e\<close> in \<open>[-1022, 1023]\<close> with
  \<open>2^e \<le> q < 2^(e+1)\<close>, clamped at both ends of the range. It is found by counting up
  from 0 when \<open>1 \<le> q\<close> and down from 0 otherwise.
\<close>

function expUp :: "int \<Rightarrow> real \<Rightarrow> int" where
  "expUp e q = (if e < 1023 \<and> 2 powi (e + 1) \<le> q then expUp (e + 1) q else e)"
  by pat_completeness auto
termination
  by (relation "measure (\<lambda>(e, q). nat (1023 - e))") auto

function expDown :: "int \<Rightarrow> real \<Rightarrow> int" where
  "expDown e q = (if - 1022 < e \<and> q < 2 powi e then expDown (e - 1) q else e)"
  by pat_completeness auto
termination
  by (relation "measure (\<lambda>(e, q). nat (e + 1022))") auto

declare expUp.simps [simp del] expDown.simps [simp del]

definition exponentOf :: "real \<Rightarrow> int" where
  "exponentOf q = (if 1 \<le> q then expUp 0 q else expDown 0 q)"

text \<open>The spacing of the doubles around \<open>q\<close>: 52 fraction bits below the exponent.\<close>

definition ulpOf :: "real \<Rightarrow> real" where
  "ulpOf q = 2 powi (exponentOf q - 52)"

text \<open>
  The nearest integer, a tie going to the even one: \<open>f\<close> is the floor and \<open>d\<close> the
  fractional part.
\<close>

definition pickEven :: "int \<Rightarrow> real \<Rightarrow> int" where
  "pickEven f d = (if d < 1 / 2 then f else if 1 / 2 < d then f + 1 else if even f then f else f + 1)"

definition roundEven :: "real \<Rightarrow> int" where
  "roundEven x = pickEven \<lfloor>x\<rfloor> (x - of_int \<lfloor>x\<rfloor>)"

text \<open>The multiple of the spacing \<open>u\<close> nearest to \<open>q\<close>.\<close>

definition roundAt :: "real \<Rightarrow> real \<Rightarrow> real" where
  "roundAt u q = of_int (roundEven (q / u)) * u"

text \<open>
  The double with the given sign and rounded magnitude \<open>m\<close>: an infinity from \<open>2^1024\<close>
  on, a signed zero when the magnitude has rounded to 0.
\<close>

definition pack :: "bool \<Rightarrow> real \<Rightarrow> number" where
  "pack negative m =
     (if 2 powi 1024 \<le> m then (if negative then NegInf else PosInf)
      else if m = 0 then (if negative then NegZero else Fin 0)
      else Fin (if negative then - m else m))"

text \<open>Rounding a real to the nearest double. An exact zero result is the positive zero.\<close>

definition rd :: "real \<Rightarrow> number" where
  "rd r = (if r = 0 then Fin 0 else pack (r < 0) (roundAt (ulpOf \<bar>r\<bar>) \<bar>r\<bar>))"

definition isZero :: "number \<Rightarrow> bool" where
  "isZero x = (x = Fin 0 \<or> x = NegZero)"

definition isInf :: "number \<Rightarrow> bool" where
  "isInf x = (x = PosInf \<or> x = NegInf)"

fun isNeg :: "number \<Rightarrow> bool" where
  "isNeg NaN = False"
| "isNeg PosInf = False"
| "isNeg NegInf = True"
| "isNeg NegZero = True"
| "isNeg (Fin a) = (a < 0)"

text \<open>The real value of a finite number (0 for both zeros; 0 by convention otherwise).\<close>

fun val :: "number \<Rightarrow> real" where
  "val (Fin a) = a"
| "val x = 0"

text \<open>Unary minus.\<close>

fun fneg :: "number \<Rightarrow> number" where
  "fneg NaN = NaN"
| "fneg PosInf = NegInf"
| "fneg NegInf = PosInf"
| "fneg NegZero = Fin 0"
| "fneg (Fin a) = (if a = 0 then NegZero else Fin (- a))"

text \<open>\<open>x + y\<close>. The clauses are read in order.\<close>

fun fadd :: "number \<Rightarrow> number \<Rightarrow> number" where
  "fadd NaN y = NaN"
| "fadd x NaN = NaN"
| "fadd PosInf NegInf = NaN"
| "fadd NegInf PosInf = NaN"
| "fadd PosInf y = PosInf"
| "fadd x PosInf = PosInf"
| "fadd NegInf y = NegInf"
| "fadd x NegInf = NegInf"
| "fadd NegZero y = y"
| "fadd x NegZero = x"
| "fadd (Fin a) (Fin b) = rd (a + b)"

text \<open>\<open>x - y\<close>, \<open>x * y\<close> and \<open>x / y\<close>.\<close>

definition fsub :: "number \<Rightarrow> number \<Rightarrow> number" where
  "fsub x y = fadd x (fneg y)"

definition signed :: "bool \<Rightarrow> number \<Rightarrow> number" where
  "signed negative x = (if negative then fneg x else x)"

definition fmul :: "number \<Rightarrow> number \<Rightarrow> number" where
  "fmul x y =
     (if x = NaN \<or> y = NaN then NaN
      else if isInf x \<or> isInf y
        then (if isZero x \<or> isZero y then NaN else signed (isNeg x \<noteq> isNeg y) PosInf)
      else if isZero x \<or> isZero y then signed (isNeg x \<noteq> isNeg y) (Fin 0)
      else rd (val x * val y))"

definition fdiv :: "number \<Rightarrow> number \<Rightarrow> number" where
  "fdiv x y =
     (if x = NaN \<or> y = NaN then NaN
      else if isInf x then (if isInf y then NaN else signed (isNeg x \<noteq> isNeg y) PosInf)
      else if isInf y then signed (isNeg x \<noteq> isNeg y) (Fin 0)
      else if isZero y then (if isZero x then NaN else signed (isNeg x \<noteq> isNeg y) PosInf)
      else if isZero x then signed (isNeg x \<noteq> isNeg y) (Fin 0)
      else rd (val x / val y))"

text \<open>
  \<open>x < y\<close>, \<open>x === y\<close> and \<open>x <= y\<close>: false whenever an operand is NaN; the two zeros are
  equal.
\<close>

fun flt :: "number \<Rightarrow> number \<Rightarrow> bool" where
  "flt NaN y = False"
| "flt x NaN = False"
| "flt PosInf y = False"
| "flt x PosInf = True"
| "flt x NegInf = False"
| "flt NegInf y = True"
| "flt x y = (val x < val y)"

fun feq :: "number \<Rightarrow> number \<Rightarrow> bool" where
  "feq NaN y = False"
| "feq x NaN = False"
| "feq PosInf y = (y = PosInf)"
| "feq x PosInf = False"
| "feq NegInf y = (y = NegInf)"
| "feq x NegInf = False"
| "feq x y = (val x = val y)"

definition fle :: "number \<Rightarrow> number \<Rightarrow> bool" where
  "fle x y = (flt x y \<or> feq x y)"

text \<open>Truthiness of a number, and \<open>x || 0\<close>: NaN and the zeros are falsy.\<close>

definition truthy :: "number \<Rightarrow> bool" where
  "truthy x = (x \<noteq> NaN \<and> \<not> isZero x)"

definition orZero :: "number \<Rightarrow> number" where
  "orZero x = (if truthy x then x else Fin 0)"

text \<open>
  \<open>Math.round\<close>: the integer nearest to \<open>x\<close>, a tie going towards \<open>+\<infinity>\<close>, that is
  \<open>\<lfloor>x + 1/2\<rfloor>\<close> computed exactly; the negative zero for \<open>-1/2 \<le> x < 0\<close>; NaN, the
  infinities and the negative zero are returned as they are. The integer is a double, since
  a double of magnitude \<open>2^52\<close> or more is an integer already.
\<close>

fun Math_round :: "number \<Rightarrow> number" where
  "Math_round (Fin a) = (if \<lfloor>a + 1 / 2\<rfloor> = 0 \<and> a < 0 then NegZero else Fin (of_int \<lfloor>a + 1 / 2\<rfloor>))"
| "Math_round x = x"

fun Math_abs :: "number \<Rightarrow> number" where
  "Math_abs NaN = NaN"
| "Math_abs PosInf = PosInf"
| "Math_abs NegInf = PosInf"
| "Math_abs NegZero = Fin 0"
| "Math_abs (Fin a) = Fin \<bar>a\<bar>"

text \<open>An array length as a number.\<close>

definition ofNat :: "nat \<Rightarrow> number" where
  "ofNat n = Fin (real n)"

section \<open>Data model (src/core/types.ts)\<close>

text \<open>
  Every \<open>number\<close> field of the source is a double. A JavaScript \<open>Map<string, V>\<close> is an
  association list in insertion order: \<open>get\<close> is \<open>map_of\<close>, \<open>set\<close> is \<open>AList.update\<close> (an
  existing key keeps its position, a new key is appended), \<open>values()\<close> is \<open>map snd\<close>.
  Record fields carry a prefix because several interfaces of the source share the field
  names \<open>id\<close>, \<open>status\<close>, \<open>totalBets\<close>. The fields \<open>appId\<close>, \<open>question\<close>,
  \<open>description\<close>, \<open>outcomeType\<close> and the free-form part of \<open>metadata\<close> are payload no
  operation reads; they are left out, except that \<open>metadata.cancelReason\<close> is kept as
  \<open>m_cancelReason\<close>.
\<close>

datatype MarketStatus = OPEN | CLOSED | RESOLVED | CANCELLED

datatype BetStatus = pending | confirmed | won | lost | refunded

datatype ErrorCode =
  INVALID_INPUT | INVALID_CONFIG | CONFLICT | MARKET_NOT_FOUND | INSUFFICIENT_BALANCE

record MarketOutcome =
  o_id :: string
  o_label :: string
  o_totalBets :: number
  o_betCount :: number
  o_odds :: number
  o_probability :: number

record Market =
  m_id :: string
  m_outcomes :: "MarketOutcome list"
  m_status :: MarketStatus
  m_totalPool :: number
  m_feeRate :: number
  m_createdAt :: number
  m_closesAt :: number
  m_resolvedAt :: "number option"
  m_winningOutcomeId :: "string option"
  m_cancelReason :: "string option"
  m_allowedBettors :: "string list option"
  m_minBet :: "number option"
  m_maxBet :: "number option"

record Bet =
  b_id :: string
  b_marketId :: string
  b_bettorId :: string
  b_outcomeId :: string
  b_amount :: number
  b_potentialPayout :: number
  b_status :: BetStatus
  b_payout :: "number option"
  b_createdAt :: number
  b_oddsAtBet :: number

record User =
  u_id :: string
  u_balance :: number
  u_totalBets :: number
  u_totalWon :: number
  u_totalLost :: number
  u_createdAt :: number

record placeBetInput =
  pb_marketId :: string
  pb_bettorId :: string
  pb_outcomeId :: string
  pb_amount :: number

record resolveMarketInput =
  rm_marketId :: string
  rm_winningOutcomeId :: string

text \<open>The argument type \<open>{ bettorId; outcomeId; amount }\<close> of \<open>calculatePayouts\<close>.\<close>

record Stake =
  s_bettorId :: string
  s_outcomeId :: string
  s_amount :: number

section \<open>Odds and payout calculator (src/utils/odds.ts)\<close>

text \<open>\<open>xs.find(o => o.id === k)\<close>, with \<open>undefined\<close> as \<open>None\<close>.\<close>

definition findOutcome :: "string \<Rightarrow> MarketOutcome list \<Rightarrow> MarketOutcome option" where
  "findOutcome k xs = find (\<lambda>out. o_id out = k) xs"

definition calculateOdds :: "Market \<Rightarrow> MarketOutcome list" where
  "calculateOdds market =
     (let totalPool = m_totalPool market;
          feePool = fmul totalPool (m_feeRate market);
          payoutPool = fsub totalPool feePool
      in map (\<lambda>outcome.
            if feq (o_totalBets outcome) (Fin 0) \<or> feq totalPool (Fin 0)
            then outcome\<lparr>o_odds := ofNat (length (m_outcomes market)),
                         o_probability := fdiv (Fin 1) (ofNat (length (m_outcomes market)))\<rparr>
            else (let odds = fdiv payoutPool (o_totalBets outcome);
                      probability = fdiv (o_totalBets outcome) totalPool
                  in outcome\<lparr>o_odds := fdiv (Math_round (fmul odds (Fin 100))) (Fin 100),
                              o_probability :=
                                fdiv (Math_round (fmul probability (Fin 1000))) (Fin 1000)\<rparr>))
          (m_outcomes market))"

definition calculatePotentialPayout :: "number \<Rightarrow> string \<Rightarrow> Market \<Rightarrow> number" where
  "calculatePotentialPayout amount outcomeId market =
     (case findOutcome outcomeId (m_outcomes market) of
        None \<Rightarrow> Fin 0
      | Some outcome \<Rightarrow>
          (let totalPool = fadd (m_totalPool market) amount;
               feePool = fmul totalPool (m_feeRate market);
               payoutPool = fsub totalPool feePool;
               outcomePool = fadd (o_totalBets outcome) amount;
               payout = fdiv outcomePool payoutPool
           in fdiv (Math_round (fmul payout (Fin 100))) (Fin 100)))"

text \<open>
  \<open>payouts.get(k) || 0\<close>: a missing entry reads as 0, and so does a stored value that is
  falsy (a zero or NaN).
\<close>

definition getOrZero :: "(string \<times> number) list \<Rightarrow> string \<Rightarrow> number" where
  "getOrZero payouts k = (case map_of payouts k of None \<Rightarrow> Fin 0 | Some v \<Rightarrow> orZero v)"

text \<open>The first loop of \<open>calculatePayouts\<close> (lines 62-66): every stake is refunded.\<close>

fun refundLoop :: "Stake list \<Rightarrow> (string \<times> number) list \<Rightarrow> (string \<times> number) list" where
  "refundLoop [] payouts = payouts"
| "refundLoop (bet # bets) payouts =
     (let currentPayout = getOrZero payouts (s_bettorId bet);
          refund = fadd currentPayout (s_amount bet)
      in refundLoop bets (AList.update (s_bettorId bet) refund payouts))"

text \<open>The second loop (lines 70-77): the winners share the payout pool.\<close>

fun shareLoop ::
  "string \<Rightarrow> number \<Rightarrow> number \<Rightarrow> Stake list \<Rightarrow> (string \<times> number) list
     \<Rightarrow> (string \<times> number) list"
where
  "shareLoop winningOutcomeId winningTotal payoutPool [] payouts = payouts"
| "shareLoop winningOutcomeId winningTotal payoutPool (bet # bets) payouts =
     (if s_outcomeId bet = winningOutcomeId
      then (let share = fdiv (s_amount bet) winningTotal;
                payout = fmul share payoutPool;
                currentPayout = getOrZero payouts (s_bettorId bet)
            in shareLoop winningOutcomeId winningTotal payoutPool bets
                 (AList.update (s_bettorId bet)
                    (fadd currentPayout (fdiv (Math_round (fmul payout (Fin 100))) (Fin 100)))
                    payouts))
      else shareLoop winningOutcomeId winningTotal payoutPool bets payouts)"

definition calculatePayouts ::
  "Market \<Rightarrow> string \<Rightarrow> Stake list \<Rightarrow> (string \<times> number) list"
where
  "calculatePayouts market winningOutcomeId bets =
     (let totalPool = m_totalPool market;
          feePool = fmul totalPool (m_feeRate market);
          payoutPool = fsub totalPool feePool
      in case findOutcome winningOutcomeId (m_outcomes market) of
           None \<Rightarrow> refundLoop bets []
         | Some winningOutcome \<Rightarrow>
             if feq (o_totalBets winningOutcome) (Fin 0) then refundLoop bets []
             else shareLoop winningOutcomeId (o_totalBets winningOutcome) payoutPool bets [])"

text \<open>The condition of line 61, under which every stake is refunded.\<close>

definition refundsAll :: "Market \<Rightarrow> string \<Rightarrow> bool" where
  "refundsAll market winningOutcomeId =
     (case findOutcome winningOutcomeId (m_outcomes market) of
        None \<Rightarrow> True
      | Some winningOutcome \<Rightarrow> feq (o_totalBets winningOutcome) (Fin 0))"

text \<open>
  The stakes of one bettor in list order, and what the refund loop accumulates from them:
  it starts from 0 and adds each stake to the running total read back through \<open>|| 0\<close>.
\<close>

definition stakesOf :: "string \<Rightarrow> Stake list \<Rightarrow> number list" where
  "stakesOf bettor bets = map s_amount (filter (\<lambda>b. s_bettorId b = bettor) bets)"

definition refundOf :: "string \<Rightarrow> Stake list \<Rightarrow> number" where
  "refundOf bettor bets = foldl (\<lambda>acc a. fadd (orZero acc) a) (Fin 0) (stakesOf bettor bets)"

definition winnersOf :: "string \<Rightarrow> Stake list \<Rightarrow> Stake list" where
  "winnersOf winningOutcomeId bets = filter (\<lambda>b. s_outcomeId b = winningOutcomeId) bets"

text \<open>
  What \<open>Math.round(x * k) / k\<close> comes to, written without \<open>Math.round\<close>: the product
  \<open>x * k\<close> is rounded to a double \<open>v\<close>, \<open>v\<close> goes to the integer \<open>\<lfloor>v + 1/2\<rfloor>\<close> (the
  nearest one, a tie going up), and the quotient of that integer by \<open>k\<close> is rounded to a
  double. With \<open>k = 100\<close> this is rounding to 2 decimal places, with \<open>k = 1000\<close> to 3, up
  to the two roundings to a double. A product that is NaN, infinite or a negative zero is
  the result.
\<close>

definition roundScaled :: "real \<Rightarrow> number \<Rightarrow> number" where
  "roundScaled k x =
     (case fmul x (Fin k) of
        Fin v \<Rightarrow> if - 1 / 2 \<le> v \<and> v < 0 then NegZero else rd (of_int \<lfloor>v + 1 / 2\<rfloor> / k)
      | y \<Rightarrow> y)"

section \<open>Validation (src/utils/validation.ts)\<close>

text \<open>
  A thrown \<open>PredictSDKError(code, ...)\<close> is the value \<open>Inl code\<close>; a normal return is
  \<open>Inr\<close>. \<open>Date.now()\<close> is the argument \<open>now\<close>, one reading per operation. An element of
  \<open>CreateMarketInput.outcomes\<close> is a label or an object with an id and a label.
\<close>

datatype OutcomeInput = OutcomeLabel string | OutcomeObject string string

record CreateMarketInput =
  cm_question :: string
  cm_outcomes :: "OutcomeInput list"
  cm_closesAt :: number
  cm_feeRate :: "number option"
  cm_allowedBettors :: "string list option"
  cm_minBet :: "number option"
  cm_maxBet :: "number option"

definition validateCreateMarketInput :: "CreateMarketInput \<Rightarrow> number \<Rightarrow> ErrorCode + unit" where
  "validateCreateMarketInput input now =
     (if cm_question input = [] then Inl INVALID_CONFIG
      else if length (cm_outcomes input) < 2 then Inl INVALID_CONFIG
      else if cm_closesAt input = NaN \<or> fle (cm_closesAt input) now then Inl INVALID_CONFIG
      else if (case cm_feeRate input of
                 None \<Rightarrow> False | Some f \<Rightarrow> flt f (Fin 0) \<or> flt (Fin (1 / 2)) f)
        then Inl INVALID_CONFIG
      else if (case (cm_minBet input, cm_maxBet input) of
                 (Some mn, Some mx) \<Rightarrow> flt mx mn | _ \<Rightarrow> False)
        then Inl INVALID_CONFIG
      else if (case cm_minBet input of None \<Rightarrow> False | Some mn \<Rightarrow> flt mn (Fin 0))
        then Inl INVALID_CONFIG
      else if (case cm_maxBet input of None \<Rightarrow> False | Some mx \<Rightarrow> flt mx (Fin 0))
        then Inl INVALID_CONFIG
      else Inr ())"

definition validatePlaceBet :: "placeBetInput \<Rightarrow> Market \<Rightarrow> number \<Rightarrow> ErrorCode + unit" where
  "validatePlaceBet input market now =
     (if m_status market \<noteq> OPEN then Inl INVALID_INPUT
      else if flt (m_closesAt market) now then Inl INVALID_INPUT
      else if findOutcome (pb_outcomeId input) (m_outcomes market) = None then Inl INVALID_INPUT
      else if fle (pb_amount input) (Fin 0) then Inl INVALID_INPUT
      else if (case m_minBet market of None \<Rightarrow> False | Some mn \<Rightarrow> flt (pb_amount input) mn)
        then Inl INVALID_INPUT
      else if (case m_maxBet market of None \<Rightarrow> False | Some mx \<Rightarrow> flt mx (pb_amount input))
        then Inl INVALID_INPUT
      else if (case m_allowedBettors market of
                 None \<Rightarrow> False | Some allowed \<Rightarrow> pb_bettorId input \<notin> set allowed)
        then Inl INVALID_INPUT
      else Inr ())"

definition validateResolveMarket :: "resolveMarketInput \<Rightarrow> Market \<Rightarrow> ErrorCode + unit" where
  "validateResolveMarket input market =
     (if m_status market \<noteq> RESOLVED then Inl INVALID_INPUT
      else if m_winningOutcomeId market = None then Inl INVALID_INPUT
      else if findOutcome (rm_winningOutcomeId input) (m_outcomes market) = None
        then Inl INVALID_INPUT
      else Inr ())"

section \<open>Storage adapter (MemoryStorage) and SDK state\<close>

record Storage =
  st_markets :: "(string \<times> Market) list"
  st_bets :: "(string \<times> Bet) list"
  st_users :: "(string \<times> User) list"

record SDKConfig =
  cfg_defaultFeeRate :: "number option"
  cfg_storage :: "Storage option"
  cfg_initialBalance :: "number option"

text \<open>
  The state of a \<open>PredictSDK\<close> object: the storage it owns and the two configuration
  values the operations read. Objects are values here: an operation that mutates an entity
  it has read writes it back with the storage's \<open>save\<close>, as the source does before it
  returns (\<open>getMarket\<close> apart, see there), so the in-place mutation and the stored value
  agree wherever an entity is stored under its own id. Event emission changes no storage and
  is left out.
\<close>

record SDK = Storage +
  sdk_defaultFeeRate :: number
  sdk_initialBalance :: number

definition MemoryStorage :: Storage where
  "MemoryStorage = \<lparr>st_markets = [], st_bets = [], st_users = []\<rparr>"

definition PredictSDK :: "SDKConfig \<Rightarrow> SDK" where
  "PredictSDK config =
     (let st = (case cfg_storage config of None \<Rightarrow> MemoryStorage | Some given \<Rightarrow> given)
      in \<lparr>st_markets = st_markets st, st_bets = st_bets st, st_users = st_users st,
          sdk_defaultFeeRate = (case cfg_defaultFeeRate config of None \<Rightarrow> rd (2 / 100) | Some f \<Rightarrow> f),
          sdk_initialBalance = (case cfg_initialBalance config of None \<Rightarrow> Fin 1000 | Some b \<Rightarrow> b)\<rparr>)"

definition storage_getMarket :: "SDK \<Rightarrow> string \<Rightarrow> Market option" where
  "storage_getMarket s k = map_of (st_markets s) k"

definition storage_getAllMarkets :: "SDK \<Rightarrow> Market list" where
  "storage_getAllMarkets s = map snd (st_markets s)"

definition storage_saveMarket :: "Market \<Rightarrow> SDK \<Rightarrow> SDK" where
  "storage_saveMarket market s = s\<lparr>st_markets := AList.update (m_id market) market (st_markets s)\<rparr>"

definition storage_getBet :: "SDK \<Rightarrow> string \<Rightarrow> Bet option" where
  "storage_getBet s k = map_of (st_bets s) k"

definition storage_getAllBets :: "SDK \<Rightarrow> Bet list" where
  "storage_getAllBets s = map snd (st_bets s)"

definition storage_saveBet :: "Bet \<Rightarrow> SDK \<Rightarrow> SDK" where
  "storage_saveBet bet s = s\<lparr>st_bets := AList.update (b_id bet) bet (st_bets s)\<rparr>"

definition storage_getUser :: "SDK \<Rightarrow> string \<Rightarrow> User option" where
  "storage_getUser s k = map_of (st_users s) k"

definition storage_saveUser :: "User \<Rightarrow> SDK \<Rightarrow> SDK" where
  "storage_saveUser user s = s\<lparr>st_users := AList.update (u_id user) user (st_users s)\<rparr>"

definition storage_clear :: "SDK \<Rightarrow> SDK" where
  "storage_clear s = s\<lparr>st_markets := [], st_bets := [], st_users := []\<rparr>"

section \<open>Core SDK facade (src/core/sdk.ts)\<close>

text \<open>
  Every operation returns its result together with the state it leaves, also when it
  throws: \<open>placeBet\<close> has already created the bettor when it throws
  \<open>INSUFFICIENT_BALANCE\<close>. Generated identifiers (\<open>generateMarketId\<close>,
  \<open>generateOutcomeId\<close>, \<open>generateBetId\<close>: random UUID fragments) are arguments.
\<close>

definition createMarket ::
  "CreateMarketInput \<Rightarrow> string \<Rightarrow> (nat \<Rightarrow> string) \<Rightarrow> number \<Rightarrow> SDK \<Rightarrow> (ErrorCode + Market) \<times> SDK"
where
  "createMarket input newMarketId newOutcomeId now s =
     (case validateCreateMarketInput input now of
        Inl e \<Rightarrow> (Inl e, s)
      | Inr _ \<Rightarrow>
          (let n = length (cm_outcomes input);
               outcomes = map (\<lambda>(i, x).
                   case x of
                     OutcomeLabel l \<Rightarrow>
                       \<lparr>o_id = newOutcomeId i, o_label = l, o_totalBets = Fin 0,
                        o_betCount = Fin 0, o_odds = ofNat n,
                        o_probability = fdiv (Fin 1) (ofNat n)\<rparr>
                   | OutcomeObject k l \<Rightarrow>
                       \<lparr>o_id = (if k \<noteq> [] then k else newOutcomeId i), o_label = l,
                        o_totalBets = Fin 0, o_betCount = Fin 0, o_odds = ofNat n,
                        o_probability = fdiv (Fin 1) (ofNat n)\<rparr>)
                 (enumerate 0 (cm_outcomes input));
               market = \<lparr>m_id = newMarketId, m_outcomes = outcomes, m_status = OPEN,
                  m_totalPool = Fin 0,
                  m_feeRate = (case cm_feeRate input of None \<Rightarrow> sdk_defaultFeeRate s | Some f \<Rightarrow> f),
                  m_createdAt = now, m_closesAt = cm_closesAt input, m_resolvedAt = None,
                  m_winningOutcomeId = None, m_cancelReason = None,
                  m_allowedBettors = cm_allowedBettors input,
                  m_minBet = cm_minBet input, m_maxBet = cm_maxBet input\<rparr>
           in (Inr market, storage_saveMarket market s)))"

text \<open>
  \<open>getMarket\<close> assigns the recomputed odds to the object the storage returned. With
  \<open>MemoryStorage\<close> that object is the stored one, so the market stored under \<open>marketId\<close>
  changes too (only its outcomes' odds and probabilities do); this is the one mutation the
  source does not follow with a \<open>save\<close>.
\<close>

definition getMarket :: "string \<Rightarrow> SDK \<Rightarrow> Market option \<times> SDK" where
  "getMarket marketId s =
     (case storage_getMarket s marketId of
        None \<Rightarrow> (None, s)
      | Some market \<Rightarrow>
          (let market' = market\<lparr>m_outcomes := calculateOdds market\<rparr>
           in (Some market', s\<lparr>st_markets := AList.update marketId market' (st_markets s)\<rparr>)))"

definition getBetsByMarket :: "SDK \<Rightarrow> string \<Rightarrow> Bet list" where
  "getBetsByMarket s marketId = filter (\<lambda>b. b_marketId b = marketId) (storage_getAllBets s)"

definition closeMarket :: "string \<Rightarrow> SDK \<Rightarrow> (ErrorCode + Market) \<times> SDK" where
  "closeMarket marketId s =
     (case storage_getMarket s marketId of
        None \<Rightarrow> (Inl MARKET_NOT_FOUND, s)
      | Some market \<Rightarrow>
          (let market' = market\<lparr>m_status := CLOSED\<rparr>
           in (Inr market', storage_saveMarket market' s)))"

definition getOrCreateUser :: "string \<Rightarrow> number \<Rightarrow> SDK \<Rightarrow> User \<times> SDK" where
  "getOrCreateUser userId now s =
     (case storage_getUser s userId of
        Some user \<Rightarrow> (user, s)
      | None \<Rightarrow>
          (let user = \<lparr>u_id = userId, u_balance = sdk_initialBalance s, u_totalBets = Fin 0,
                       u_totalWon = Fin 0, u_totalLost = Fin 0, u_createdAt = now\<rparr>
           in (user, storage_saveUser user s)))"

definition updateUserBalance :: "string \<Rightarrow> number \<Rightarrow> number \<Rightarrow> SDK \<Rightarrow> User \<times> SDK" where
  "updateUserBalance userId delta now s =
     (let (user, s1) = getOrCreateUser userId now s;
          user1 = user\<lparr>u_balance := fadd (u_balance user) delta\<rparr>;
          user2 = (if flt (Fin 0) delta
                   then user1\<lparr>u_totalWon := fadd (u_totalWon user1) delta\<rparr>
                   else user1\<lparr>u_totalBets := fadd (u_totalBets user1) (Math_abs delta)\<rparr>)
      in (user2, storage_saveUser user2 s1))"

definition addFunds :: "string \<Rightarrow> number \<Rightarrow> number \<Rightarrow> SDK \<Rightarrow> (ErrorCode + User) \<times> SDK" where
  "addFunds userId amount now s =
     (if fle amount (Fin 0) then (Inl INVALID_INPUT, s)
      else (let (user, s1) = updateUserBalance userId amount now s in (Inr user, s1)))"

text \<open>The loop of \<open>resolveMarket\<close> (lines 175-189) over the market's bets.\<close>

fun resolveLoop ::
  "string \<Rightarrow> (string \<times> number) list \<Rightarrow> number \<Rightarrow> Bet list \<Rightarrow> SDK \<Rightarrow> SDK"
where
  "resolveLoop winningOutcomeId payouts now [] s = s"
| "resolveLoop winningOutcomeId payouts now (bet # rest) s =
     (let isWinner = (b_outcomeId bet = winningOutcomeId);
          payout = getOrZero payouts (b_bettorId bet);
          bet' = bet\<lparr>b_status := (if isWinner then won else lost),
                     b_payout := Some (if isWinner then payout else Fin 0)\<rparr>;
          s1 = storage_saveBet bet' s;
          s2 = (if isWinner \<and> flt (Fin 0) payout
                then snd (updateUserBalance (b_bettorId bet) payout now s1) else s1)
      in resolveLoop winningOutcomeId payouts now rest s2)"

definition stakeOfBet :: "Bet \<Rightarrow> Stake" where
  "stakeOfBet b = \<lparr>s_bettorId = b_bettorId b, s_outcomeId = b_outcomeId b, s_amount = b_amount b\<rparr>"

definition resolveMarket :: "resolveMarketInput \<Rightarrow> number \<Rightarrow> SDK \<Rightarrow> (ErrorCode + Market) \<times> SDK" where
  "resolveMarket input now s =
     (case storage_getMarket s (rm_marketId input) of
        None \<Rightarrow> (Inl MARKET_NOT_FOUND, s)
      | Some market \<Rightarrow>
          (case validateResolveMarket input market of
             Inl e \<Rightarrow> (Inl e, s)
           | Inr _ \<Rightarrow>
               (let allBets = storage_getAllBets s;
                    bets = filter (\<lambda>b. b_marketId b = m_id market) allBets;
                    payouts = calculatePayouts market (rm_winningOutcomeId input)
                                (map stakeOfBet bets);
                    market' = market\<lparr>m_status := RESOLVED, m_resolvedAt := Some now,
                                m_winningOutcomeId := Some (rm_winningOutcomeId input)\<rparr>;
                    s1 = storage_saveMarket market' s;
                    s2 = resolveLoop (rm_winningOutcomeId input) payouts now bets s1
                in (Inr market', s2))))"

text \<open>The loop of \<open>cancelMarket\<close> (lines 216-223).\<close>

fun cancelLoop :: "number \<Rightarrow> Bet list \<Rightarrow> SDK \<Rightarrow> SDK" where
  "cancelLoop now [] s = s"
| "cancelLoop now (bet # rest) s =
     (let bet' = bet\<lparr>b_status := refunded, b_payout := Some (b_amount bet)\<rparr>;
          s1 = storage_saveBet bet' s;
          s2 = snd (updateUserBalance (b_bettorId bet) (b_amount bet) now s1)
      in cancelLoop now rest s2)"

text \<open>\<open>if (reason)\<close> holds for a string that is given and not empty.\<close>

definition cancelMarket ::
  "string \<Rightarrow> string option \<Rightarrow> number \<Rightarrow> SDK \<Rightarrow> (ErrorCode + Market) \<times> SDK"
where
  "cancelMarket marketId reason now s =
     (case storage_getMarket s marketId of
        None \<Rightarrow> (Inl MARKET_NOT_FOUND, s)
      | Some market \<Rightarrow>
          if m_status market = RESOLVED then (Inl CONFLICT, s)
          else (let allBets = storage_getAllBets s;
                    bets = filter (\<lambda>b. b_marketId b = m_id market) allBets;
                    s1 = cancelLoop now bets s;
                    market1 = market\<lparr>m_status := CANCELLED\<rparr>;
                    market2 = (case reason of
                                 None \<Rightarrow> market1
                               | Some r \<Rightarrow> if r \<noteq> [] then market1\<lparr>m_cancelReason := Some r\<rparr>
                                           else market1)
                in (Inr market2, storage_saveMarket market2 s1)))"

text \<open>
  Lines 290-292 of \<open>placeBet\<close>: the first outcome with the given id is mutated in place.
  \<open>validatePlaceBet\<close> has already checked that there is one.
\<close>

fun bumpOutcome :: "string \<Rightarrow> number \<Rightarrow> MarketOutcome list \<Rightarrow> MarketOutcome list" where
  "bumpOutcome k a [] = []"
| "bumpOutcome k a (out # rest) =
     (if o_id out = k
      then out\<lparr>o_totalBets := fadd (o_totalBets out) a,
                o_betCount := fadd (o_betCount out) (Fin 1)\<rparr> # rest
      else out # bumpOutcome k a rest)"

definition placeBet :: "placeBetInput \<Rightarrow> string \<Rightarrow> number \<Rightarrow> SDK \<Rightarrow> (ErrorCode + Bet) \<times> SDK" where
  "placeBet input newBetId now s =
     (case storage_getMarket s (pb_marketId input) of
        None \<Rightarrow> (Inl MARKET_NOT_FOUND, s)
      | Some market \<Rightarrow>
          (case validatePlaceBet input market now of
             Inl e \<Rightarrow> (Inl e, s)
           | Inr _ \<Rightarrow>
               (let (user, s1) = getOrCreateUser (pb_bettorId input) now s
                in if flt (u_balance user) (pb_amount input) then (Inl INSUFFICIENT_BALANCE, s1)
                   else
                     (let currentOdds = calculateOdds market;
                          outcomeOdds = (case findOutcome (pb_outcomeId input) currentOdds of
                                           None \<Rightarrow> Fin 0 | Some out \<Rightarrow> orZero (o_odds out));
                          potentialPayout =
                            calculatePotentialPayout (pb_amount input) (pb_outcomeId input) market;
                          bet = \<lparr>b_id = newBetId, b_marketId = m_id market,
                                 b_bettorId = pb_bettorId input, b_outcomeId = pb_outcomeId input,
                                 b_amount = pb_amount input, b_potentialPayout = potentialPayout,
                                 b_status = confirmed, b_payout = None, b_createdAt = now,
                                 b_oddsAtBet = outcomeOdds\<rparr>;
                          market1 = market\<lparr>m_outcomes :=
                                        bumpOutcome (pb_outcomeId input) (pb_amount input)
                                          (m_outcomes market),
                                      m_totalPool := fadd (m_totalPool market) (pb_amount input)\<rparr>;
                          market2 = market1\<lparr>m_outcomes := calculateOdds market1\<rparr>;
                          s2 = snd (updateUserBalance (pb_bettorId input) (fneg (pb_amount input)) now s1);
                          s3 = storage_saveBet bet s2;
                          s4 = storage_saveMarket market2 s3
                      in (Inr bet, s4)))))"

text \<open>The loop of \<open>checkAndCloseExpiredMarkets\<close> (lines 391-398).\<close>

fun closeExpiredLoop :: "number \<Rightarrow> Market list \<Rightarrow> Market list \<Rightarrow> SDK \<Rightarrow> Market list \<times> SDK" where
  "closeExpiredLoop now [] closedSoFar s = (closedSoFar, s)"
| "closeExpiredLoop now (market # rest) closedSoFar s =
     (if m_status market = OPEN \<and> fle (m_closesAt market) now
      then (let market' = market\<lparr>m_status := CLOSED\<rparr>
            in closeExpiredLoop now rest (closedSoFar @ [market']) (storage_saveMarket market' s))
      else closeExpiredLoop now rest closedSoFar s)"

definition checkAndCloseExpiredMarkets :: "number \<Rightarrow> SDK \<Rightarrow> Market list \<times> SDK" where
  "checkAndCloseExpiredMarkets now s = closeExpiredLoop now (storage_getAllMarkets s) [] s"

definition clear :: "SDK \<Rightarrow> SDK" where
  "clear s = storage_clear s"

section \<open>Stored entities and balances\<close>

text \<open>
  Every entity is stored under its own id. The adapter's \<open>save\<close> methods write under the
  entity's id, so a storage filled through them has this property.
\<close>

definition wellKeyed :: "SDK \<Rightarrow> bool" where
  "wellKeyed s =
     (list_all (\<lambda>(k, m). m_id m = k) (st_markets s) \<and>
      list_all (\<lambda>(k, b). b_id b = k) (st_bets s) \<and>
      list_all (\<lambda>(k, u). u_id u = k) (st_users s))"

text \<open>
  The balance the SDK holds for a user, as \<open>getOrCreateUser\<close> reads it: a user that is not
  stored yet has the configured initial balance.
\<close>

definition balanceOf :: "SDK \<Rightarrow> string \<Rightarrow> number" where
  "balanceOf s userId =
     (case storage_getUser s userId of None \<Rightarrow> sdk_initialBalance s | Some user \<Rightarrow> u_balance user)"

section \<open>Concrete inputs\<close>

definition mkOutcome :: "string \<Rightarrow> number \<Rightarrow> number \<Rightarrow> MarketOutcome" where
  "mkOutcome k tot n =
     \<lparr>o_id = k, o_label = k, o_totalBets = tot, o_betCount = n, o_odds = Fin 2,
      o_probability = Fin (1 / 2)\<rparr>"

definition mkMarket ::
  "string \<Rightarrow> MarketOutcome list \<Rightarrow> MarketStatus \<Rightarrow> number \<Rightarrow> number \<Rightarrow> string option \<Rightarrow> Market"
where
  "mkMarket k outs st pool fee win =
     \<lparr>m_id = k, m_outcomes = outs, m_status = st, m_totalPool = pool, m_feeRate = fee,
      m_createdAt = Fin 0, m_closesAt = Fin 1000, m_resolvedAt = None, m_winningOutcomeId = win,
      m_cancelReason = None, m_allowedBettors = None, m_minBet = None, m_maxBet = None\<rparr>"

definition mkStake :: "string \<Rightarrow> string \<Rightarrow> number \<Rightarrow> Stake" where
  "mkStake u k a = \<lparr>s_bettorId = u, s_outcomeId = k, s_amount = a\<rparr>"

definition mkBet :: "string \<Rightarrow> string \<Rightarrow> string \<Rightarrow> string \<Rightarrow> number \<Rightarrow> BetStatus \<Rightarrow> Bet" where
  "mkBet k m u out a st =
     \<lparr>b_id = k, b_marketId = m, b_bettorId = u, b_outcomeId = out, b_amount = a,
      b_potentialPayout = Fin 0, b_status = st, b_payout = None, b_createdAt = Fin 0,
      b_oddsAtBet = Fin 2\<rparr>"

definition mkUser :: "string \<Rightarrow> number \<Rightarrow> User" where
  "mkUser k bal =
     \<lparr>u_id = k, u_balance = bal, u_totalBets = Fin 0, u_totalWon = Fin 0, u_totalLost = Fin 0,
      u_createdAt = Fin 0\<rparr>"

text \<open>A new SDK, a market created on it, a bet of 100 on outcome A, and the market cancelled.\<close>

definition exInput :: CreateMarketInput where
  "exInput = \<lparr>cm_question = ''Q'',
     cm_outcomes = [OutcomeObject ''A'' ''Yes'', OutcomeObject ''B'' ''No''],
     cm_closesAt = Fin 1000, cm_feeRate = None, cm_allowedBettors = None, cm_minBet = None,
     cm_maxBet = None\<rparr>"

definition exNew :: SDK where
  "exNew = PredictSDK \<lparr>cfg_defaultFeeRate = None, cfg_storage = None, cfg_initialBalance = None\<rparr>"

definition exCreated :: SDK where
  "exCreated = snd (createMarket exInput ''m1'' (\<lambda>i. ''x'') (Fin 0) exNew)"

definition exBetInput :: placeBetInput where
  "exBetInput = \<lparr>pb_marketId = ''m1'', pb_bettorId = ''u1'', pb_outcomeId = ''A'',
                  pb_amount = Fin 100\<rparr>"

definition exBetPlaced :: SDK where
  "exBetPlaced = snd (placeBet exBetInput ''b1'' (Fin 1) exCreated)"

definition exCancelled :: SDK where
  "exCancelled = snd (cancelMarket ''m1'' None (Fin 2) exBetPlaced)"

text \<open>Storages that hold a market already resolved, as \<open>validateResolveMarket\<close> demands.\<close>

definition exResolvedStorage :: Storage where
  "exResolvedStorage =
     \<lparr>st_markets = [(''m1'', mkMarket ''m1''
                         [mkOutcome ''A'' (Fin 100) (Fin 2), mkOutcome ''B'' (Fin 100) (Fin 1)]
                         RESOLVED (Fin 200) (rd (2 / 100)) (Some ''A''))],
      st_bets = [(''b1'', mkBet ''b1'' ''m1'' ''u1'' ''A'' (Fin 50) confirmed),
                 (''b2'', mkBet ''b2'' ''m1'' ''u1'' ''A'' (Fin 50) confirmed),
                 (''b3'', mkBet ''b3'' ''m1'' ''u2'' ''B'' (Fin 100) confirmed)],
      st_users = [(''u1'', mkUser ''u1'' (Fin 850)), (''u2'', mkUser ''u2'' (Fin 900))]\<rparr>"

definition exResolved :: SDK where
  "exResolved = PredictSDK \<lparr>cfg_defaultFeeRate = None, cfg_storage = Some exResolvedStorage,
                             cfg_initialBalance = None\<rparr>"

definition exZeroStakeStorage :: Storage where
  "exZeroStakeStorage =
     \<lparr>st_markets = [(''m1'', mkMarket ''m1''
                         [mkOutcome ''A'' (Fin 0) (Fin 0), mkOutcome ''B'' (Fin 100) (Fin 1)]
                         RESOLVED (Fin 100) (rd (2 / 100)) (Some ''A''))],
      st_bets = [(''b1'', mkBet ''b1'' ''m1'' ''u1'' ''B'' (Fin 100) confirmed)],
      st_users = [(''u1'', mkUser ''u1'' (Fin 900))]\<rparr>"

definition exZeroStake :: SDK where
  "exZeroStake = PredictSDK \<lparr>cfg_defaultFeeRate = None, cfg_storage = Some exZeroStakeStorage,
                              cfg_initialBalance = None\<rparr>"

definition exResolveInput :: resolveMarketInput where
  "exResolveInput = \<lparr>rm_marketId = ''m1'', rm_winningOutcomeId = ''A''\<rparr>"

text \<open>
  An SDK with an initial balance of \<open>10^16\<close>, a market on it, a bet of \<open>2^53\<close> and then a
  bet of 1 by the same bettor.
\<close>

definition exRich :: SDK where
  "exRich = snd (createMarket exInput ''m1'' (\<lambda>i. ''x'') (Fin 0)
              (PredictSDK \<lparr>cfg_defaultFeeRate = None, cfg_storage = None,
                           cfg_initialBalance = Some (Fin (10 ^ 16))\<rparr>))"

definition exBigBet :: SDK where
  "exBigBet = snd (placeBet \<lparr>pb_marketId = ''m1'', pb_bettorId = ''u1'', pb_outcomeId = ''A'',
                             pb_amount = Fin (2 ^ 53)\<rparr> ''b1'' (Fin 1) exRich)"

definition exOneMore :: placeBetInput where
  "exOneMore = \<lparr>pb_marketId = ''m1'', pb_bettorId = ''u1'', pb_outcomeId = ''A'',
                 pb_amount = Fin 1\<rparr>"

definition exBigBetPlusOne :: SDK where
  "exBigBetPlusOne = snd (placeBet exOneMore ''b2'' (Fin 2) exBigBet)"





text \<open>Markets for the calculator.\<close>

definition exOddsMarket :: Market where
  "exOddsMarket = mkMarket ''m1''
     [mkOutcome ''A'' (Fin 1996) (Fin 2), mkOutcome ''B'' (Fin 1) (Fin 1),
      mkOutcome ''C'' (Fin 3) (Fin 1), mkOutcome ''D'' (Fin 0) (Fin 0)]
     OPEN (Fin 2000) (rd (2 / 100)) None"

definition exLongShot :: Market where
  "exLongShot = mkMarket ''m1''
     [mkOutcome ''A'' (Fin 1) (Fin 1), mkOutcome ''B'' (Fin 532211623778106) (Fin 1)]
     OPEN (Fin 532211623778107) (Fin 0) None"

definition exTie :: Market where
  "exTie = mkMarket ''m1'' [mkOutcome ''A'' (Fin 40) (Fin 1), mkOutcome ''B'' (Fin 1) (Fin 1)]
     OPEN (Fin 41) (Fin 0) None"

definition exNoStakeOnA :: Market where
  "exNoStakeOnA = mkMarket ''m1''
     [mkOutcome ''A'' (Fin 0) (Fin 0), mkOutcome ''B'' (Fin 100) (Fin 3)]
     RESOLVED (Fin 100) (rd (2 / 100)) (Some ''A'')"

definition exTwoSided :: Market where
  "exTwoSided = mkMarket ''m1''
     [mkOutcome ''A'' (Fin 40) (Fin 1), mkOutcome ''B'' (Fin 60) (Fin 1)]
     RESOLVED (Fin 100) (rd (2 / 100)) (Some ''A'')"

text \<open>Bet lists for \<open>calculatePayouts\<close>.\<close>

definition exDecimalStakes :: "Stake list" where
  "exDecimalStakes = [mkStake ''u1'' ''B'' (rd (1 / 10)), mkStake ''u2'' ''B'' NaN,
                      mkStake ''u1'' ''B'' (rd (7 / 10)), mkStake ''u2'' ''B'' (Fin 5)]"

definition exLargeStakes :: "Stake list" where
  "exLargeStakes = [mkStake ''u1'' ''B'' (Fin (2 ^ 53)), mkStake ''u2'' ''B'' (Fin 3),
                    mkStake ''u1'' ''B'' (Fin 1)]"

definition exTenths :: "Stake list" where
  "exTenths = [mkStake ''u1'' ''B'' (rd (1 / 10)), mkStake ''u1'' ''A'' (rd (1 / 10)),
               mkStake ''u2'' ''B'' (Fin 7), mkStake ''u1'' ''B'' (rd (1 / 10))]"

definition exTenthAndFifth :: "Stake list" where
  "exTenthAndFifth = [mkStake ''u1'' ''A'' (rd (1 / 10)), mkStake ''u1'' ''B'' (rd (2 / 10))]"

section \<open>Reachable states and the pool invariant\<close>

text \<open>
  The states a \<open>PredictSDK\<close> object over a new, empty \<open>MemoryStorage\<close> can be in: any
  sequence of its state-changing operations, with any arguments, a throwing call included
  (with the state it leaves). A generated market id or bet id is one that is not in use.
\<close>

inductive reachable :: "SDK \<Rightarrow> bool" where
  reach_new:
    "reachable (PredictSDK \<lparr>cfg_defaultFeeRate = fee, cfg_storage = None, cfg_initialBalance = bal\<rparr>)"
| reach_createMarket:
    "reachable s \<Longrightarrow> storage_getMarket s newMarketId = None \<Longrightarrow>
     reachable (snd (createMarket input newMarketId newOutcomeId now s))"
| reach_getMarket:
    "reachable s \<Longrightarrow> reachable (snd (getMarket marketId s))"
| reach_closeMarket:
    "reachable s \<Longrightarrow> reachable (snd (closeMarket marketId s))"
| reach_resolveMarket:
    "reachable s \<Longrightarrow> reachable (snd (resolveMarket rinput now s))"
| reach_cancelMarket:
    "reachable s \<Longrightarrow> reachable (snd (cancelMarket marketId reason now s))"
| reach_placeBet:
    "reachable s \<Longrightarrow> storage_getBet s newBetId = None \<Longrightarrow>
     reachable (snd (placeBet binput newBetId now s))"
| reach_addFunds:
    "reachable s \<Longrightarrow> reachable (snd (addFunds userId amount now s))"
| reach_getOrCreateUser:
    "reachable s \<Longrightarrow> reachable (snd (getOrCreateUser userId now s))"
| reach_checkAndCloseExpiredMarkets:
    "reachable s \<Longrightarrow> reachable (snd (checkAndCloseExpiredMarkets now s))"
| reach_clear:
    "reachable s \<Longrightarrow> reachable (clear s)"

text \<open>
  What the pool invariant reads of a bet and of a market: the id, the market a bet is on and
  its amount; the id and the pool of a market. \<open>cores\<close> maps a stored collection to these.
\<close>

definition betCore :: "Bet \<Rightarrow> string \<times> string \<times> number" where
  "betCore b = (b_id b, b_marketId b, b_amount b)"

definition marketCore :: "Market \<Rightarrow> string \<times> number" where
  "marketCore m = (m_id m, m_totalPool m)"

definition cores :: "('v \<Rightarrow> 'c) \<Rightarrow> (string \<times> 'v) list \<Rightarrow> (string \<times> 'c) list" where
  "cores c al = map (\<lambda>(k, v). (k, c v)) al"

text \<open>
  What a market's pool has accumulated: the amounts of the bets on it, added in double
  precision in the order the bets were stored, starting from 0.
\<close>

definition stakedOn :: "string \<Rightarrow> (string \<times> string \<times> string \<times> number) list \<Rightarrow> number" where
  "stakedOn marketId bc =
     foldl fadd (Fin 0) (map (\<lambda>(k, i, m, a). a) (filter (\<lambda>(k, i, m, a). m = marketId) bc))"

definition ledgerInv ::
  "(string \<times> string \<times> string \<times> number) list \<Rightarrow> (string \<times> string \<times> number) list \<Rightarrow> bool"
where
  "ledgerInv bc mc =
     (distinct (map fst bc) \<and> distinct (map fst mc) \<and>
      (\<forall>(k, i, m, a) \<in> set bc. i = k \<and> m \<in> fst ` set mc) \<and>
      (\<forall>(k, i, p) \<in> set mc. i = k \<and> p = stakedOn k bc))"

definition poolInvariant :: "SDK \<Rightarrow> bool" where
  "poolInvariant s = ledgerInv (cores betCore (st_bets s)) (cores marketCore (st_markets s))"

section \<open>Evaluating the arithmetic\<close>

text \<open>
  The equations that evaluate an arithmetic operation on given numbers. They are used with
  the case splitting of the simplifier switched off, so that the exponent search unfolds only
  as far as its condition holds.
\<close>

lemmas num_eval = rd_def pack_def roundAt_def ulpOf_def exponentOf_def roundEven_def pickEven_def
  expUp.simps expDown.simps fsub_def fmul_def fdiv_def fle_def truthy_def orZero_def isZero_def
  isInf_def signed_def ofNat_def Let_def

lemma fee_default: "rd (2 / 100) = Fin (5764607523034235 / 288230376151711744)"
  by (simp add: num_eval split del: if_split)

section \<open>Properties of the calculator\<close>

lemma feq_zero: "feq x (Fin 0) = isZero x"
  by (cases x) (auto simp: isZero_def)

lemma orZero_Fin [simp]: "orZero (Fin a) = Fin a"
  by (simp add: orZero_def truthy_def isZero_def)

lemma orZero_idem [simp]: "orZero (orZero x) = orZero x"
  by (cases x) (simp_all add: orZero_def truthy_def isZero_def)

lemma orZero_getOrZero [simp]: "orZero (getOrZero p k) = getOrZero p k"
  by (simp add: getOrZero_def split: option.splits)

lemma getOrZero_update:
  "getOrZero (AList.update k v p) k' = (if k' = k then orZero v else getOrZero p k')"
  by (simp add: getOrZero_def update_conv')

lemma refund_step_orZero:
  "xs \<noteq> [] \<Longrightarrow>
   foldl (\<lambda>acc a. fadd (orZero acc) a) (orZero x) xs = foldl (\<lambda>acc a. fadd (orZero acc) a) x xs"
  by (cases xs) simp_all

lemma stakesOf_Cons:
  "stakesOf k (bet # bets) = (if s_bettorId bet = k then s_amount bet # stakesOf k bets else stakesOf k bets)"
  by (simp add: stakesOf_def)

lemma stakesOf_empty: "stakesOf k bets = [] \<longleftrightarrow> k \<notin> s_bettorId ` set bets"
  by (induction bets) (auto simp: stakesOf_def)

lemma refundLoop_lookup:
  "map_of (refundLoop bets p) k =
     (if stakesOf k bets = [] then map_of p k
      else Some (foldl (\<lambda>acc a. fadd (orZero acc) a) (getOrZero p k) (stakesOf k bets)))"
proof (induction bets arbitrary: p)
  case Nil
  show ?case by (simp add: stakesOf_def)
next
  case (Cons bet bets)
  let ?b = "s_bettorId bet"
  let ?v = "fadd (getOrZero p ?b) (s_amount bet)"
  let ?p' = "AList.update ?b ?v p"
  have step: "refundLoop (bet # bets) p = refundLoop bets ?p'" by (simp add: Let_def)
  show ?case
  proof (cases "k = ?b")
    case True
    show ?thesis
    proof (cases "stakesOf k bets = []")
      case True
      with \<open>k = ?b\<close> show ?thesis
        unfolding step Cons.IH by (simp add: stakesOf_Cons update_conv')
    next
      case False
      have "foldl (\<lambda>acc a. fadd (orZero acc) a) (getOrZero ?p' k) (stakesOf k bets)
              = foldl (\<lambda>acc a. fadd (orZero acc) a) ?v (stakesOf k bets)"
        using \<open>k = ?b\<close> False by (simp add: getOrZero_update refund_step_orZero)
      with False \<open>k = ?b\<close> show ?thesis
        unfolding step Cons.IH by (simp add: stakesOf_Cons)
    qed
  next
    case False
    then show ?thesis
      unfolding step Cons.IH by (simp add: stakesOf_Cons getOrZero_update update_conv')
  qed
qed

lemma refundLoop_empty_lookup:
  "map_of (refundLoop bets []) k =
     (if k \<in> s_bettorId ` set bets then Some (refundOf k bets) else None)"
  by (simp add: refundLoop_lookup stakesOf_empty refundOf_def getOrZero_def)

lemma refundLoop_nonempty: "bets \<noteq> [] \<Longrightarrow> refundLoop bets p \<noteq> []"
proof -
  assume "bets \<noteq> []"
  then obtain b where "b \<in> set bets" by (cases bets) auto
  then have "stakesOf (s_bettorId b) bets \<noteq> []" by (simp add: stakesOf_empty)
  then have "map_of (refundLoop bets p) (s_bettorId b) \<noteq> None"
    by (simp add: refundLoop_lookup)
  then show ?thesis by auto
qed

lemma Math_round_scaled:
  assumes "0 < k"
  shows "fdiv (Math_round (fmul x (Fin k))) (Fin k) = roundScaled k x"
proof (cases "fmul x (Fin k)")
  case (Fin v)
  show ?thesis
  proof (cases "\<lfloor>v + 1 / 2\<rfloor> = 0")
    case True
    then have "- 1 / 2 \<le> v" by linarith
    with True Fin assms show ?thesis
      by (auto simp: roundScaled_def fdiv_def isZero_def isInf_def signed_def rd_def)
  next
    case False
    then have "\<not> (- 1 / 2 \<le> v \<and> v < 0)" by linarith
    with False Fin assms show ?thesis
      by (auto simp: roundScaled_def fdiv_def isZero_def isInf_def signed_def)
  qed
qed (use assms in \<open>auto simp: roundScaled_def fdiv_def isZero_def isInf_def signed_def\<close>)

text \<open>
  C6, amended. \<open>calculateOdds\<close> returns one outcome for each outcome of the market, in
  order. An outcome whose \<open>totalBets\<close> is zero, and every outcome when \<open>totalPool\<close> is
  zero, gets odds equal to the number of outcomes and probability 1 divided by that number;
  any other outcome gets odds \<open>(totalPool - totalPool * feeRate) / totalBets\<close> and
  probability \<open>totalBets / totalPool\<close>, each operation rounded to a double, and then
  rounded to 2 and to 3 decimal places by \<open>roundScaled\<close>. The other fields are unchanged.
\<close>

theorem calculateOdds_each_outcome:
  "length (calculateOdds market) = length (m_outcomes market) \<and>
   (\<forall>i < length (m_outcomes market).
      calculateOdds market ! i =
        (if isZero (o_totalBets (m_outcomes market ! i)) \<or> isZero (m_totalPool market)
         then (m_outcomes market ! i)
                \<lparr>o_odds := Fin (real (length (m_outcomes market))),
                 o_probability := fdiv (Fin 1) (Fin (real (length (m_outcomes market))))\<rparr>
         else (m_outcomes market ! i)
                \<lparr>o_odds := roundScaled 100
                    (fdiv (fsub (m_totalPool market) (fmul (m_totalPool market) (m_feeRate market)))
                          (o_totalBets (m_outcomes market ! i))),
                 o_probability := roundScaled 1000
                    (fdiv (o_totalBets (m_outcomes market ! i)) (m_totalPool market))\<rparr>))"
  by (simp add: calculateOdds_def Let_def feq_zero ofNat_def Math_round_scaled)

theorem calculateOdds_each_outcome_witness:
  "length (calculateOdds exOddsMarket) = 4 \<and>
   calculateOdds exOddsMarket ! 0 = (mkOutcome ''A'' (Fin 1996) (Fin 2))
      \<lparr>o_odds := Fin (2206763817411543 / 2251799813685248),
       o_probability := Fin (4494592428115755 / 4503599627370496)\<rparr> \<and>
   calculateOdds exOddsMarket ! 1 = (mkOutcome ''B'' (Fin 1) (Fin 1))
      \<lparr>o_odds := Fin 1960, o_probability := Fin (1152921504606847 / 1152921504606846976)\<rparr> \<and>
   calculateOdds exOddsMarket ! 2 = (mkOutcome ''C'' (Fin 3) (Fin 1))
      \<lparr>o_odds := Fin (5746751454199153 / 8796093022208),
       o_probability := Fin (1152921504606847 / 576460752303423488)\<rparr> \<and>
   calculateOdds exOddsMarket ! 3 = (mkOutcome ''D'' (Fin 0) (Fin 0))
      \<lparr>o_odds := Fin 4, o_probability := Fin (1 / 4)\<rparr>"
proof -
  note each = calculateOdds_each_outcome [of exOddsMarket]
  have len: "length (m_outcomes exOddsMarket) = 4" by (simp add: exOddsMarket_def mkMarket_def)
  have l: "length (calculateOdds exOddsMarket) = 4" using each len by simp
  have "calculateOdds exOddsMarket ! 0 = (mkOutcome ''A'' (Fin 1996) (Fin 2))
      \<lparr>o_odds := Fin (2206763817411543 / 2251799813685248),
       o_probability := Fin (4494592428115755 / 4503599627370496)\<rparr>"
    using each [THEN conjunct2, THEN spec, of 0]
    by (simp add: exOddsMarket_def mkMarket_def mkOutcome_def roundScaled_def num_eval
        split del: if_split)
  moreover have "calculateOdds exOddsMarket ! 1 = (mkOutcome ''B'' (Fin 1) (Fin 1))
      \<lparr>o_odds := Fin 1960, o_probability := Fin (1152921504606847 / 1152921504606846976)\<rparr>"
    using each [THEN conjunct2, THEN spec, of 1]
    by (simp add: exOddsMarket_def mkMarket_def mkOutcome_def roundScaled_def num_eval
        split del: if_split)
  moreover have "calculateOdds exOddsMarket ! 2 = (mkOutcome ''C'' (Fin 3) (Fin 1))
      \<lparr>o_odds := Fin (5746751454199153 / 8796093022208),
       o_probability := Fin (1152921504606847 / 576460752303423488)\<rparr>"
    using each [THEN conjunct2, THEN spec, of 2]
    by (simp add: exOddsMarket_def mkMarket_def mkOutcome_def roundScaled_def num_eval
        split del: if_split)
  moreover have "calculateOdds exOddsMarket ! 3 = (mkOutcome ''D'' (Fin 0) (Fin 0))
      \<lparr>o_odds := Fin 4, o_probability := Fin (1 / 4)\<rparr>"
    using each [THEN conjunct2, THEN spec, of 3]
    by (simp add: exOddsMarket_def mkMarket_def mkOutcome_def roundScaled_def num_eval
        split del: if_split)
  ultimately show ?thesis using l by simp
qed

text \<open>
  C6, as stated: the odds are \<open>totalPool * (1 - feeRate) / totalBets\<close> rounded to 2 decimal
  places. With pool 532211623778107, no fee and 1 staked on the outcome the quotient is
  532211623778107, a number with no decimals, and the odds returned are
  532211623778107.0625: the product by 100 is above \<open>2^53\<close> and is rounded to a double
  before the division. With pool 41, no fee and 40 staked the quotient is 1.025, which
  \<open>Math.round\<close> would take to 1.03; the double quotient times 100 is just below 102.5 and
  the odds returned are 1.02.
\<close>

theorem calculateOdds_decimals_counterexample:
  "map o_odds (calculateOdds exLongShot) = [Fin (8515385980449713 / 16), Fin 1] \<and>
   map o_totalBets (m_outcomes exLongShot) = [Fin 1, Fin 532211623778106] \<and>
   m_totalPool exLongShot = Fin 532211623778107 \<and> m_feeRate exLongShot = Fin 0 \<and>
   of_int \<lfloor>(532211623778107 * (1 - 0) / 1) * 100 + 1 / 2 :: real\<rfloor> / 100 = (532211623778107 :: real) \<and>
   (8515385980449713 / 16 :: real) - 532211623778107 = 1 / 16 \<and>
   map o_odds (calculateOdds exTie) = [Fin (2296835809958953 / 2251799813685248), Fin 41] \<and>
   map o_totalBets (m_outcomes exTie) = [Fin 40, Fin 1] \<and>
   m_totalPool exTie = Fin 41 \<and> m_feeRate exTie = Fin 0 \<and>
   of_int \<lfloor>(41 * (1 - 0) / 40) * 100 + 1 / 2 :: real\<rfloor> / 100 = (103 / 100 :: real) \<and>
   (2296835809958953 / 2251799813685248 :: real) < 1021 / 1000"
proof -
  have "map o_odds (calculateOdds exLongShot) = [Fin (8515385980449713 / 16), Fin 1]"
    by (simp add: exLongShot_def calculateOdds_def mkMarket_def mkOutcome_def num_eval
        split del: if_split)
  moreover have "map o_odds (calculateOdds exTie) = [Fin (2296835809958953 / 2251799813685248), Fin 41]"
    by (simp add: exTie_def calculateOdds_def mkMarket_def mkOutcome_def num_eval
        split del: if_split)
  moreover have "\<lfloor>(532211623778107 * (1 - 0) / 1) * 100 + 1 / 2 :: real\<rfloor> = 53221162377810700"
    by simp
  moreover have "\<lfloor>(41 * (1 - 0) / 40) * 100 + 1 / 2 :: real\<rfloor> = 103"
    by simp
  ultimately show ?thesis
    by (simp add: exLongShot_def exTie_def mkMarket_def mkOutcome_def)
qed

text \<open>
  C8, amended. When the winning outcome exists and its \<open>totalBets\<close> is zero, the map of
  \<open>calculatePayouts\<close> has an entry exactly for the bettors of the list, and a bettor's entry
  is \<open>refundOf\<close>: the bettor's stakes added one by one in list order from 0, each addition
  rounded to a double, a running total that is zero or NaN being read as 0. No fee is
  deducted and no amount is rounded to decimals.
\<close>

theorem calculatePayouts_zero_stake_refund:
  assumes "findOutcome winningOutcomeId (m_outcomes market) = Some winningOutcome"
    and "isZero (o_totalBets winningOutcome)"
  shows "map_of (calculatePayouts market winningOutcomeId bets) bettor =
           (if bettor \<in> s_bettorId ` set bets then Some (refundOf bettor bets) else None)"
  using assms by (simp add: calculatePayouts_def Let_def refundLoop_empty_lookup feq_zero)

theorem calculatePayouts_zero_stake_refund_witness:
  "findOutcome ''A'' (m_outcomes exNoStakeOnA) = Some (mkOutcome ''A'' (Fin 0) (Fin 0)) \<and>
   map_of (calculatePayouts exNoStakeOnA ''A'' exDecimalStakes) ''u1''
     = Some (Fin (7205759403792793 / 9007199254740992)) \<and>
   map_of (calculatePayouts exNoStakeOnA ''A'' exDecimalStakes) ''u2'' = Some (Fin 5) \<and>
   map_of (calculatePayouts exNoStakeOnA ''A'' exDecimalStakes) ''u3'' = None"
proof -
  have found: "findOutcome ''A'' (m_outcomes exNoStakeOnA) = Some (mkOutcome ''A'' (Fin 0) (Fin 0))"
    by (simp add: exNoStakeOnA_def mkMarket_def mkOutcome_def findOutcome_def)
  have zero: "isZero (o_totalBets (mkOutcome ''A'' (Fin 0) (Fin 0)))"
    by (simp add: mkOutcome_def isZero_def)
  note refund = calculatePayouts_zero_stake_refund [OF found zero, of exDecimalStakes]
  have "map_of (calculatePayouts exNoStakeOnA ''A'' exDecimalStakes) ''u1''
          = Some (Fin (7205759403792793 / 9007199254740992))"
    using refund [of "''u1''"]
    by (simp add: exDecimalStakes_def mkStake_def refundOf_def stakesOf_def num_eval
        split del: if_split)
  moreover have "map_of (calculatePayouts exNoStakeOnA ''A'' exDecimalStakes) ''u2'' = Some (Fin 5)"
    using refund [of "''u2''"]
    by (simp add: exDecimalStakes_def mkStake_def refundOf_def stakesOf_def num_eval
        split del: if_split)
  moreover have "map_of (calculatePayouts exNoStakeOnA ''A'' exDecimalStakes) ''u3'' = None"
    using refund [of "''u3''"]
    by (simp add: exDecimalStakes_def mkStake_def)
  ultimately show ?thesis using found by simp
qed

text \<open>
  C8, as stated: every bettor gets exactly the sum of the amounts of their bets. A bettor
  with stakes \<open>2^53\<close> and 1 has staked 9007199254740993 and is refunded
  9007199254740992: the sum is not a double and the addition rounds it.
\<close>

theorem calculatePayouts_zero_stake_counterexample:
  "findOutcome ''A'' (m_outcomes exNoStakeOnA) = Some (mkOutcome ''A'' (Fin 0) (Fin 0)) \<and>
   stakesOf ''u1'' exLargeStakes = [Fin 9007199254740992, Fin 1] \<and>
   map_of (calculatePayouts exNoStakeOnA ''A'' exLargeStakes) ''u1'' = Some (Fin 9007199254740992) \<and>
   sum_list (map val (stakesOf ''u1'' exLargeStakes)) = 9007199254740993"
  by (simp add: exNoStakeOnA_def exLargeStakes_def mkMarket_def mkOutcome_def mkStake_def
      findOutcome_def calculatePayouts_def getOrZero_def stakesOf_def update_conv' num_eval
      split del: if_split)

text \<open>
  C10, amended. When no outcome of the market has the winning id, \<open>calculatePayouts\<close>
  returns what it returns in the zero-stake branch (for any market and winning id that take
  that branch); the map has an entry exactly for the bettors of the list, a bettor's entry
  being \<open>refundOf\<close>, the double-precision sum of the bettor's stakes in list order; and the
  map is not empty unless the bet list is.
\<close>

theorem calculatePayouts_unknown_winner_refund:
  assumes "findOutcome winningOutcomeId (m_outcomes market) = None"
    and "findOutcome winningOutcomeId' (m_outcomes market') = Some zeroStake"
    and "isZero (o_totalBets zeroStake)"
  shows "calculatePayouts market winningOutcomeId bets
           = calculatePayouts market' winningOutcomeId' bets \<and>
         map_of (calculatePayouts market winningOutcomeId bets) bettor =
           (if bettor \<in> s_bettorId ` set bets then Some (refundOf bettor bets) else None) \<and>
         (bets \<noteq> [] \<longrightarrow> calculatePayouts market winningOutcomeId bets \<noteq> [])"
  using assms
  by (simp add: calculatePayouts_def Let_def refundLoop_empty_lookup refundLoop_nonempty feq_zero)

theorem calculatePayouts_unknown_winner_refund_witness:
  "findOutcome ''Z'' (m_outcomes exTwoSided) = None \<and>
   calculatePayouts exTwoSided ''Z'' exTenths = calculatePayouts exNoStakeOnA ''A'' exTenths \<and>
   map_of (calculatePayouts exTwoSided ''Z'' exTenths) ''u1''
     = Some (Fin (1351079888211149 / 4503599627370496)) \<and>
   map_of (calculatePayouts exTwoSided ''Z'' exTenths) ''u2'' = Some (Fin 7) \<and>
   map_of (calculatePayouts exTwoSided ''Z'' exTenths) ''u3'' = None \<and>
   calculatePayouts exTwoSided ''Z'' exTenths \<noteq> []"
proof -
  have unknown: "findOutcome ''Z'' (m_outcomes exTwoSided) = None"
    by (simp add: exTwoSided_def mkMarket_def mkOutcome_def findOutcome_def)
  have found: "findOutcome ''A'' (m_outcomes exNoStakeOnA) = Some (mkOutcome ''A'' (Fin 0) (Fin 0))"
    by (simp add: exNoStakeOnA_def mkMarket_def mkOutcome_def findOutcome_def)
  have zero: "isZero (o_totalBets (mkOutcome ''A'' (Fin 0) (Fin 0)))"
    by (simp add: mkOutcome_def isZero_def)
  note refund = calculatePayouts_unknown_winner_refund [OF unknown found zero, of exTenths]
  have same: "calculatePayouts exTwoSided ''Z'' exTenths = calculatePayouts exNoStakeOnA ''A'' exTenths"
    using refund [of "''u1''"] by (rule conjunct1)
  have nonempty: "calculatePayouts exTwoSided ''Z'' exTenths \<noteq> []"
    using refund [of "''u1''", THEN conjunct2, THEN conjunct2] by (simp add: exTenths_def)
  have "map_of (calculatePayouts exTwoSided ''Z'' exTenths) ''u1''
          = Some (Fin (1351079888211149 / 4503599627370496))"
    using refund [of "''u1''", THEN conjunct2, THEN conjunct1]
    by (simp add: exTenths_def mkStake_def refundOf_def stakesOf_def num_eval split del: if_split)
  moreover have "map_of (calculatePayouts exTwoSided ''Z'' exTenths) ''u2'' = Some (Fin 7)"
    using refund [of "''u2''", THEN conjunct2, THEN conjunct1]
    by (simp add: exTenths_def mkStake_def refundOf_def stakesOf_def num_eval split del: if_split)
  moreover have "map_of (calculatePayouts exTwoSided ''Z'' exTenths) ''u3'' = None"
    using refund [of "''u3''", THEN conjunct2, THEN conjunct1]
    by (simp add: exTenths_def mkStake_def)
  ultimately show ?thesis using unknown same nonempty by simp
qed

text \<open>
  C10, as stated: every bettor gets the full sum of their stakes. With stakes 0.1 and 0.2
  (the doubles nearest to them) the refund is 0.30000000000000004, which is \<open>2^-55\<close> more
  than the sum of the two stakes.
\<close>

theorem calculatePayouts_unknown_winner_counterexample:
  "findOutcome ''Z'' (m_outcomes exTwoSided) = None \<and>
   stakesOf ''u1'' exTenthAndFifth
     = [Fin (3602879701896397 / 36028797018963968), Fin (3602879701896397 / 18014398509481984)] \<and>
   calculatePayouts exTwoSided ''Z'' exTenthAndFifth
     = [(''u1'', Fin (1351079888211149 / 4503599627370496))] \<and>
   sum_list (map val (stakesOf ''u1'' exTenthAndFifth)) = 10808639105689191 / 36028797018963968 \<and>
   (1351079888211149 / 4503599627370496 :: real) - 10808639105689191 / 36028797018963968
     = 1 / 36028797018963968"
proof -
  have tenth: "rd (1 / 10) = Fin (3602879701896397 / 36028797018963968)"
    and fifth: "rd (1 / 5) = Fin (3602879701896397 / 18014398509481984)"
    by (simp_all add: num_eval split del: if_split)
  have stakes: "stakesOf ''u1'' exTenthAndFifth
     = [Fin (3602879701896397 / 36028797018963968), Fin (3602879701896397 / 18014398509481984)]"
    by (simp add: exTenthAndFifth_def mkStake_def stakesOf_def tenth fifth)
  have "calculatePayouts exTwoSided ''Z'' exTenthAndFifth
          = [(''u1'', Fin (1351079888211149 / 4503599627370496))]"
    by (simp add: exTwoSided_def exTenthAndFifth_def mkMarket_def mkOutcome_def mkStake_def
        findOutcome_def calculatePayouts_def getOrZero_def tenth fifth num_eval split del: if_split)
  then show ?thesis
    by (simp add: stakes) (simp add: exTwoSided_def mkMarket_def mkOutcome_def findOutcome_def)
qed

section \<open>Properties of the storage and of the user balance\<close>

section \<open>Properties of the storage and of the user balance\<close>

lemma findOutcome_None_iff: "findOutcome k xs = None \<longleftrightarrow> k \<notin> o_id ` set xs"
  by (auto simp: findOutcome_def find_None_iff)

lemma findOutcome_map:
  "(\<And>x. o_id (f x) = o_id x) \<Longrightarrow> findOutcome k (map f xs) = map_option f (findOutcome k xs)"
  by (induction xs) (simp_all add: findOutcome_def)


lemma findOutcome_calculateOdds:
  "findOutcome k (calculateOdds m) = Some r \<Longrightarrow>
   \<exists>out. findOutcome k (m_outcomes m) = Some out \<and> o_totalBets r = o_totalBets out \<and>
         o_betCount r = o_betCount out"
proof -
  let ?P = "fsub (m_totalPool m) (fmul (m_totalPool m) (m_feeRate m))"
  let ?f = "\<lambda>outcome.
            if feq (o_totalBets outcome) (Fin 0) \<or> feq (m_totalPool m) (Fin 0)
            then outcome\<lparr>o_odds := ofNat (length (m_outcomes m)),
                         o_probability := fdiv (Fin 1) (ofNat (length (m_outcomes m)))\<rparr>
            else outcome\<lparr>o_odds :=
                           fdiv (Math_round (fmul (fdiv ?P (o_totalBets outcome)) (Fin 100))) (Fin 100),
                         o_probability :=
                           fdiv (Math_round (fmul (fdiv (o_totalBets outcome) (m_totalPool m))
                                  (Fin 1000))) (Fin 1000)\<rparr>"
  assume a: "findOutcome k (calculateOdds m) = Some r"
  have c: "calculateOdds m = map ?f (m_outcomes m)" by (simp add: calculateOdds_def Let_def)
  have "findOutcome k (map ?f (m_outcomes m)) = map_option ?f (findOutcome k (m_outcomes m))"
    by (rule findOutcome_map) simp
  with a c obtain out where "findOutcome k (m_outcomes m) = Some out" "r = ?f out" by auto
  then show ?thesis by (auto split: if_splits)
qed




lemma save_frames [simp]:
  "st_markets (storage_saveUser u s) = st_markets s"
  "st_markets (storage_saveBet b s) = st_markets s"
  "st_bets (storage_saveUser u s) = st_bets s"
  "st_bets (storage_saveMarket m s) = st_bets s"
  "st_users (storage_saveBet b s) = st_users s"
  "st_users (storage_saveMarket m s) = st_users s"
  "sdk_initialBalance (storage_saveUser u s) = sdk_initialBalance s"
  "sdk_initialBalance (storage_saveBet b s) = sdk_initialBalance s"
  "sdk_initialBalance (storage_saveMarket m s) = sdk_initialBalance s"
  by (simp_all add: storage_saveUser_def storage_saveBet_def storage_saveMarket_def)


lemma wellKeyed_market: "wellKeyed s \<Longrightarrow> storage_getMarket s k = Some m \<Longrightarrow> m_id m = k"
  by (auto simp: wellKeyed_def storage_getMarket_def list_all_iff dest!: map_of_SomeD)




lemma keyed_update:
  "list_all (\<lambda>(k, v). f v = k) al \<Longrightarrow> f v = k \<Longrightarrow> list_all (\<lambda>(k, v). f v = k) (AList.update k v al)"
  by (induction al) auto

lemma wellKeyed_saveUser: "wellKeyed s \<Longrightarrow> wellKeyed (storage_saveUser u s)"
  by (simp add: wellKeyed_def storage_saveUser_def keyed_update)

lemma wellKeyed_saveBet: "wellKeyed s \<Longrightarrow> wellKeyed (storage_saveBet b s)"
  by (simp add: wellKeyed_def storage_saveBet_def keyed_update)

lemma wellKeyed_saveMarket: "wellKeyed s \<Longrightarrow> wellKeyed (storage_saveMarket m s)"
  by (simp add: wellKeyed_def storage_saveMarket_def keyed_update)

lemma wellKeyed_getOrCreateUser: "wellKeyed s \<Longrightarrow> wellKeyed (snd (getOrCreateUser k now s))"
  by (simp add: getOrCreateUser_def Let_def wellKeyed_saveUser split: option.splits)

lemma wellKeyed_updateUserBalance: "wellKeyed s \<Longrightarrow> wellKeyed (snd (updateUserBalance k d now s))"
  using wellKeyed_getOrCreateUser [of s k now]
  by (simp add: updateUserBalance_def Let_def split_beta wellKeyed_saveUser)

lemma balanceOf_frames [simp]:
  "balanceOf (storage_saveMarket m s) k = balanceOf s k"
  "balanceOf (storage_saveBet b s) k = balanceOf s k"
  by (simp_all add: balanceOf_def storage_getUser_def split: option.splits)

text \<open>
  Every state reachable from an empty storage keeps each entity under its own id: all writes
  go through the adapter's \<open>save\<close> methods.
\<close>

lemma wellKeyed_resolveLoop:
  "wellKeyed s \<Longrightarrow> wellKeyed (resolveLoop w payouts now bets s)"
proof (induction bets arbitrary: s)
  case Nil
  then show ?case by simp
next
  case (Cons bet rest)
  let ?bet' = "bet\<lparr>b_status := (if b_outcomeId bet = w then won else lost),
                    b_payout := Some (if b_outcomeId bet = w then getOrZero payouts (b_bettorId bet) else Fin 0)\<rparr>"
  let ?s1 = "storage_saveBet ?bet' s"
  let ?s2 = "if b_outcomeId bet = w \<and> flt (Fin 0) (getOrZero payouts (b_bettorId bet))
             then snd (updateUserBalance (b_bettorId bet) (getOrZero payouts (b_bettorId bet)) now ?s1)
             else ?s1"
  have k1: "wellKeyed ?s1" using Cons.prems by (rule wellKeyed_saveBet)
  have kA: "wellKeyed (snd (updateUserBalance (b_bettorId bet)
                (getOrZero payouts (b_bettorId bet)) now ?s1))"
    using k1 by (rule wellKeyed_updateUserBalance)
  have k2: "wellKeyed ?s2"
    using kA k1
    by (cases "b_outcomeId bet = w \<and> flt (Fin 0) (getOrZero payouts (b_bettorId bet))")
       (simp_all only: if_P if_not_P if_True if_False)
  have step: "resolveLoop w payouts now (bet # rest) s = resolveLoop w payouts now rest ?s2"
    by (simp add: Let_def)
  show ?case unfolding step using k2 by (rule Cons.IH)
qed

lemma wellKeyed_cancelLoop: "wellKeyed s \<Longrightarrow> wellKeyed (cancelLoop now bets s)"
proof (induction bets arbitrary: s)
  case Nil
  then show ?case by simp
next
  case (Cons bet rest)
  let ?s1 = "storage_saveBet (bet\<lparr>b_status := refunded, b_payout := Some (b_amount bet)\<rparr>) s"
  let ?s2 = "snd (updateUserBalance (b_bettorId bet) (b_amount bet) now ?s1)"
  have "wellKeyed ?s1" using Cons.prems by (rule wellKeyed_saveBet)
  then have k2: "wellKeyed ?s2" by (rule wellKeyed_updateUserBalance)
  have step: "cancelLoop now (bet # rest) s = cancelLoop now rest ?s2" by (simp add: Let_def)
  show ?case unfolding step using k2 by (rule Cons.IH)
qed

lemma wellKeyed_closeExpiredLoop:
  "wellKeyed s \<Longrightarrow> wellKeyed (snd (closeExpiredLoop now ms acc s))"
proof (induction ms arbitrary: s acc)
  case Nil
  then show ?case by simp
next
  case (Cons m rest)
  show ?case
  proof (cases "m_status m = OPEN \<and> fle (m_closesAt m) now")
    case True
    have "wellKeyed (storage_saveMarket (m\<lparr>m_status := CLOSED\<rparr>) s)"
      using Cons.prems by (rule wellKeyed_saveMarket)
    then show ?thesis using True Cons.IH by (simp add: Let_def)
  next
    case False
    then show ?thesis using Cons by auto
  qed
qed

lemma wellKeyed_getMarket:
  assumes "wellKeyed s"
  shows "wellKeyed (snd (getMarket marketId s))"
proof (cases "storage_getMarket s marketId")
  case None
  then show ?thesis using assms by (simp add: getMarket_def)
next
  case (Some m)
  have "m_id m = marketId" using assms Some by (rule wellKeyed_market)
  then have "storage_saveMarket (m\<lparr>m_outcomes := calculateOdds m\<rparr>) s
               = snd (getMarket marketId s)"
    using Some by (simp add: getMarket_def Let_def storage_saveMarket_def)
  then show ?thesis using wellKeyed_saveMarket [OF assms] by metis
qed

lemma wellKeyed_createMarket:
  "wellKeyed s \<Longrightarrow> wellKeyed (snd (createMarket input newMarketId newOutcomeId now s))"
  by (cases "validateCreateMarketInput input now")
     (simp_all add: createMarket_def Let_def wellKeyed_saveMarket)

lemma wellKeyed_closeMarket: "wellKeyed s \<Longrightarrow> wellKeyed (snd (closeMarket marketId s))"
  by (simp add: closeMarket_def Let_def wellKeyed_saveMarket split: option.splits)

lemma wellKeyed_resolveMarket: "wellKeyed s \<Longrightarrow> wellKeyed (snd (resolveMarket input now s))"
  by (simp add: resolveMarket_def Let_def wellKeyed_saveMarket wellKeyed_resolveLoop
      split: option.splits sum.splits)

lemma wellKeyed_cancelMarket:
  "wellKeyed s \<Longrightarrow> wellKeyed (snd (cancelMarket marketId reason now s))"
  by (simp add: cancelMarket_def Let_def wellKeyed_saveMarket wellKeyed_cancelLoop
      split: option.splits)

lemma wellKeyed_placeBet: "wellKeyed s \<Longrightarrow> wellKeyed (snd (placeBet input newBetId now s))"
  by (simp add: placeBet_def Let_def split_beta wellKeyed_saveMarket wellKeyed_saveBet
      wellKeyed_updateUserBalance wellKeyed_getOrCreateUser split: option.splits sum.splits)

lemma wellKeyed_addFunds: "wellKeyed s \<Longrightarrow> wellKeyed (snd (addFunds userId amount now s))"
  by (simp add: addFunds_def split_beta wellKeyed_updateUserBalance)

lemma reachable_wellKeyed: "reachable s \<Longrightarrow> wellKeyed s"
proof (induction rule: reachable.induct)
  case (reach_new fee bal)
  show ?case by (simp add: wellKeyed_def PredictSDK_def MemoryStorage_def)
next
  case (reach_clear s)
  show ?case by (simp add: wellKeyed_def clear_def storage_clear_def)
next
  case (reach_checkAndCloseExpiredMarkets s now)
  then show ?case by (simp add: checkAndCloseExpiredMarkets_def wellKeyed_closeExpiredLoop)
qed (simp_all add: wellKeyed_createMarket wellKeyed_getMarket wellKeyed_closeMarket
      wellKeyed_resolveMarket wellKeyed_cancelMarket wellKeyed_placeBet wellKeyed_addFunds
      wellKeyed_getOrCreateUser)

section \<open>Evaluating the operations on the concrete inputs\<close>

lemmas sdk_defs =
  PredictSDK_def MemoryStorage_def storage_getMarket_def storage_getAllMarkets_def
  storage_saveMarket_def storage_getBet_def storage_getAllBets_def storage_saveBet_def
  storage_getUser_def storage_saveUser_def createMarket_def validateCreateMarketInput_def
  closeMarket_def getOrCreateUser_def updateUserBalance_def resolveMarket_def
  validateResolveMarket_def cancelMarket_def placeBet_def validatePlaceBet_def
  calculateOdds_def calculatePotentialPayout_def calculatePayouts_def findOutcome_def
  getOrZero_def stakeOfBet_def balanceOf_def getBetsByMarket_def

lemmas ex_defs = exInput_def exNew_def exBetInput_def mkOutcome_def mkMarket_def mkBet_def
  mkUser_def mkStake_def exResolvedStorage_def exResolved_def exZeroStakeStorage_def
  exZeroStake_def exResolveInput_def exOneMore_def

lemma exCreated_eq:
  "exCreated =
     \<lparr>st_markets = [(''m1'', (mkMarket ''m1''
          [(mkOutcome ''A'' (Fin 0) (Fin 0))\<lparr>o_label := ''Yes''\<rparr>,
           (mkOutcome ''B'' (Fin 0) (Fin 0))\<lparr>o_label := ''No''\<rparr>]
          OPEN (Fin 0) (rd (2 / 100)) None))],
      st_bets = [], st_users = [], sdk_defaultFeeRate = rd (2 / 100),
      sdk_initialBalance = Fin 1000\<rparr>"
  by (simp add: exCreated_def sdk_defs ex_defs num_eval enumerate_eq_zip split del: if_split)

lemma exBetPlaced_run:
  "placeBet exBetInput ''b1'' (Fin 1) exCreated =
     (Inr ((mkBet ''b1'' ''m1'' ''u1'' ''A'' (Fin 100) confirmed)
             \<lparr>b_potentialPayout := rd (102 / 100), b_createdAt := Fin 1\<rparr>),
      \<lparr>st_markets = [(''m1'', (mkMarket ''m1''
          [(mkOutcome ''A'' (Fin 100) (Fin 1))
             \<lparr>o_label := ''Yes'', o_odds := rd (98 / 100), o_probability := Fin 1\<rparr>,
           (mkOutcome ''B'' (Fin 0) (Fin 0))\<lparr>o_label := ''No''\<rparr>]
          OPEN (Fin 100) (rd (2 / 100)) None))],
       st_bets = [(''b1'', (mkBet ''b1'' ''m1'' ''u1'' ''A'' (Fin 100) confirmed)
             \<lparr>b_potentialPayout := rd (102 / 100), b_createdAt := Fin 1\<rparr>)],
       st_users = [(''u1'', (mkUser ''u1'' (Fin 900))\<lparr>u_totalBets := Fin 100, u_createdAt := Fin 1\<rparr>)],
       sdk_defaultFeeRate = rd (2 / 100), sdk_initialBalance = Fin 1000\<rparr>)"
  by (simp add: exCreated_eq sdk_defs ex_defs num_eval split del: if_split)

lemma exBetPlaced_eq:
  "exBetPlaced =
      \<lparr>st_markets = [(''m1'', (mkMarket ''m1''
          [(mkOutcome ''A'' (Fin 100) (Fin 1))
             \<lparr>o_label := ''Yes'', o_odds := rd (98 / 100), o_probability := Fin 1\<rparr>,
           (mkOutcome ''B'' (Fin 0) (Fin 0))\<lparr>o_label := ''No''\<rparr>]
          OPEN (Fin 100) (rd (2 / 100)) None))],
       st_bets = [(''b1'', (mkBet ''b1'' ''m1'' ''u1'' ''A'' (Fin 100) confirmed)
             \<lparr>b_potentialPayout := rd (102 / 100), b_createdAt := Fin 1\<rparr>)],
       st_users = [(''u1'', (mkUser ''u1'' (Fin 900))\<lparr>u_totalBets := Fin 100, u_createdAt := Fin 1\<rparr>)],
       sdk_defaultFeeRate = rd (2 / 100), sdk_initialBalance = Fin 1000\<rparr>"
  by (simp add: exBetPlaced_def exBetPlaced_run)

lemma exCancelled_run:
  "cancelMarket ''m1'' None (Fin 2) exBetPlaced =
     (Inr (mkMarket ''m1''
          [(mkOutcome ''A'' (Fin 100) (Fin 1))
             \<lparr>o_label := ''Yes'', o_odds := rd (98 / 100), o_probability := Fin 1\<rparr>,
           (mkOutcome ''B'' (Fin 0) (Fin 0))\<lparr>o_label := ''No''\<rparr>]
          CANCELLED (Fin 100) (rd (2 / 100)) None),
      \<lparr>st_markets = [(''m1'', (mkMarket ''m1''
          [(mkOutcome ''A'' (Fin 100) (Fin 1))
             \<lparr>o_label := ''Yes'', o_odds := rd (98 / 100), o_probability := Fin 1\<rparr>,
           (mkOutcome ''B'' (Fin 0) (Fin 0))\<lparr>o_label := ''No''\<rparr>]
          CANCELLED (Fin 100) (rd (2 / 100)) None))],
       st_bets = [(''b1'', (mkBet ''b1'' ''m1'' ''u1'' ''A'' (Fin 100) refunded)
             \<lparr>b_potentialPayout := rd (102 / 100), b_payout := Some (Fin 100), b_createdAt := Fin 1\<rparr>)],
       st_users = [(''u1'', (mkUser ''u1'' (Fin 1000))
             \<lparr>u_totalBets := Fin 100, u_totalWon := Fin 100, u_createdAt := Fin 1\<rparr>)],
       sdk_defaultFeeRate = rd (2 / 100), sdk_initialBalance = Fin 1000\<rparr>)"
  by (simp add: exBetPlaced_eq sdk_defs ex_defs num_eval split del: if_split)

section \<open>The pool invariant\<close>

lemma cores_keys [simp]: "map fst (cores c al) = map fst al"
  by (induction al) (auto simp: cores_def)

lemma cores_update: "cores c (AList.update k v al) = AList.update k (c v) (cores c al)"
  by (induction al) (auto simp: cores_def)

lemma cores_mem: "(k, v) \<in> set al \<Longrightarrow> (k, c v) \<in> set (cores c al)"
  by (force simp: cores_def)

lemma update_fresh: "k \<notin> fst ` set al \<Longrightarrow> AList.update k v al = al @ [(k, v)]"
  by (induction al) auto

lemma stakedOn_append:
  "stakedOn k (bc @ [(k', i, m, a)]) = (if m = k then fadd (stakedOn k bc) a else stakedOn k bc)"
  by (simp add: stakedOn_def)

lemma stakedOn_unreferenced:
  "\<forall>(k', i, m, a) \<in> set bc. m \<noteq> k \<Longrightarrow> stakedOn k bc = Fin 0"
  by (induction bc) (auto simp: stakedOn_def)

lemma stakes_of_cores:
  "map (\<lambda>(k', i, m, a). a) (filter (\<lambda>(k', i, m, a). m = k) (cores betCore bets))
     = map b_amount (filter (\<lambda>b. b_marketId b = k) (map snd bets))"
  by (induction bets) (auto simp: cores_def betCore_def)

lemma stakedOn_bets:
  "stakedOn k (cores betCore bets)
     = foldl fadd (Fin 0) (map b_amount (filter (\<lambda>b. b_marketId b = k) (map snd bets)))"
  by (simp add: stakedOn_def stakes_of_cores)

lemma cores_update_known:
  assumes "distinct (map fst al)" and "(k, c v') \<in> set (cores c al)"
  shows "cores c (AList.update k v' al) = cores c al"
proof -
  have "distinct (map fst (cores c al))" using assms(1) by simp
  then have "map_of (cores c al) k = Some (c v')" using assms(2) by simp
  then show ?thesis by (simp add: cores_update update_triv)
qed

lemma user_ops_frame [simp]:
  "st_bets (snd (getOrCreateUser k now s)) = st_bets s"
  "st_markets (snd (getOrCreateUser k now s)) = st_markets s"
  "st_bets (snd (updateUserBalance k d now s)) = st_bets s"
  "st_markets (snd (updateUserBalance k d now s)) = st_markets s"
  by (simp_all add: getOrCreateUser_def updateUserBalance_def Let_def split_beta split: option.splits)

lemma poolInvariant_cores:
  "cores betCore (st_bets s') = cores betCore (st_bets s) \<Longrightarrow>
   cores marketCore (st_markets s') = cores marketCore (st_markets s) \<Longrightarrow>
   poolInvariant s \<Longrightarrow> poolInvariant s'"
  by (simp add: poolInvariant_def)

lemma distinct_from_cores:
  "cores c al' = cores c al \<Longrightarrow> distinct (map fst al) \<Longrightarrow> distinct (map fst al')"
  by (metis cores_keys)

lemma resolveLoop_cores:
  assumes "distinct (map fst (st_bets s))"
    and "\<forall>bet \<in> set bets. (b_id bet, betCore bet) \<in> set (cores betCore (st_bets s))"
  shows "cores betCore (st_bets (resolveLoop w payouts now bets s)) = cores betCore (st_bets s) \<and>
         st_markets (resolveLoop w payouts now bets s) = st_markets s"
  using assms
proof (induction bets arbitrary: s)
  case Nil
  show ?case by simp
next
  case (Cons bet rest)
  let ?bet' = "bet\<lparr>b_status := (if b_outcomeId bet = w then won else lost),
                    b_payout := Some (if b_outcomeId bet = w then getOrZero payouts (b_bettorId bet) else Fin 0)\<rparr>"
  let ?s1 = "storage_saveBet ?bet' s"
  let ?s2 = "if b_outcomeId bet = w \<and> flt (Fin 0) (getOrZero payouts (b_bettorId bet))
             then snd (updateUserBalance (b_bettorId bet) (getOrZero payouts (b_bettorId bet)) now ?s1)
             else ?s1"
  have core: "betCore ?bet' = betCore bet" by (simp add: betCore_def)
  have mem: "(b_id ?bet', betCore ?bet') \<in> set (cores betCore (st_bets s))"
    using Cons.prems(2) core by simp
  have c1: "cores betCore (st_bets ?s1) = cores betCore (st_bets s)"
    using cores_update_known [OF Cons.prems(1) mem] by (simp add: storage_saveBet_def)
  have f2: "st_bets ?s2 = st_bets ?s1 \<and> st_markets ?s2 = st_markets ?s1"
    by (cases "b_outcomeId bet = w \<and> flt (Fin 0) (getOrZero payouts (b_bettorId bet))") simp_all
  have c2: "cores betCore (st_bets ?s2) = cores betCore (st_bets s)" using c1 f2 by (simp only:)
  have m2: "st_markets ?s2 = st_markets s" using f2 by (simp only: save_frames)
  have d2: "distinct (map fst (st_bets ?s2))" using c2 Cons.prems(1) by (rule distinct_from_cores)
  have r2: "\<forall>b \<in> set rest. (b_id b, betCore b) \<in> set (cores betCore (st_bets ?s2))"
    using Cons.prems(2) c2 by simp
  have step: "resolveLoop w payouts now (bet # rest) s = resolveLoop w payouts now rest ?s2"
    by (simp add: Let_def)
  show ?case using Cons.IH [OF d2 r2] c2 m2 unfolding step by simp
qed

lemma cancelLoop_cores:
  assumes "distinct (map fst (st_bets s))"
    and "\<forall>bet \<in> set bets. (b_id bet, betCore bet) \<in> set (cores betCore (st_bets s))"
  shows "cores betCore (st_bets (cancelLoop now bets s)) = cores betCore (st_bets s) \<and>
         st_markets (cancelLoop now bets s) = st_markets s"
  using assms
proof (induction bets arbitrary: s)
  case Nil
  show ?case by simp
next
  case (Cons bet rest)
  let ?bet' = "bet\<lparr>b_status := refunded, b_payout := Some (b_amount bet)\<rparr>"
  let ?s1 = "storage_saveBet ?bet' s"
  let ?s2 = "snd (updateUserBalance (b_bettorId bet) (b_amount bet) now ?s1)"
  have core: "betCore ?bet' = betCore bet" by (simp add: betCore_def)
  have mem: "(b_id ?bet', betCore ?bet') \<in> set (cores betCore (st_bets s))"
    using Cons.prems(2) core by simp
  have c1: "cores betCore (st_bets ?s1) = cores betCore (st_bets s)"
    using cores_update_known [OF Cons.prems(1) mem] by (simp add: storage_saveBet_def)
  have c2: "cores betCore (st_bets ?s2) = cores betCore (st_bets s)" using c1 by simp
  have m2: "st_markets ?s2 = st_markets s" by simp
  have d2: "distinct (map fst (st_bets ?s2))" using c2 Cons.prems(1) by (rule distinct_from_cores)
  have r2: "\<forall>b \<in> set rest. (b_id b, betCore b) \<in> set (cores betCore (st_bets ?s2))"
    using Cons.prems(2) c2 by simp
  have step: "cancelLoop now (bet # rest) s = cancelLoop now rest ?s2"
    by (simp add: Let_def)
  show ?case using Cons.IH [OF d2 r2] c2 m2 unfolding step by simp
qed

lemma closeExpiredLoop_cores:
  assumes "distinct (map fst (st_markets s))"
    and "\<forall>m \<in> set ms. (m_id m, marketCore m) \<in> set (cores marketCore (st_markets s))"
  shows "cores marketCore (st_markets (snd (closeExpiredLoop now ms acc s)))
           = cores marketCore (st_markets s) \<and>
         st_bets (snd (closeExpiredLoop now ms acc s)) = st_bets s"
  using assms
proof (induction ms arbitrary: s acc)
  case Nil
  show ?case by simp
next
  case (Cons m rest)
  show ?case
  proof (cases "m_status m = OPEN \<and> fle (m_closesAt m) now")
    case True
    let ?m' = "m\<lparr>m_status := CLOSED\<rparr>"
    let ?s1 = "storage_saveMarket ?m' s"
    have core: "marketCore ?m' = marketCore m" by (simp add: marketCore_def)
    have mem: "(m_id ?m', marketCore ?m') \<in> set (cores marketCore (st_markets s))"
      using Cons.prems(2) core by simp
    have c1: "cores marketCore (st_markets ?s1) = cores marketCore (st_markets s)"
      using cores_update_known [OF Cons.prems(1) mem] by (simp add: storage_saveMarket_def)
    have d1: "distinct (map fst (st_markets ?s1))" using c1 Cons.prems(1) by (rule distinct_from_cores)
    have r1: "\<forall>x \<in> set rest. (m_id x, marketCore x) \<in> set (cores marketCore (st_markets ?s1))"
      using Cons.prems(2) c1 by simp
    show ?thesis using True Cons.IH [OF d1 r1] c1 by (simp add: Let_def)
  next
    case False
    have r: "\<forall>x \<in> set rest. (m_id x, marketCore x) \<in> set (cores marketCore (st_markets s))"
      using Cons.prems(2) by simp
    show ?thesis using False Cons.IH [OF Cons.prems(1) r] by auto
  qed
qed

text \<open>What the invariant says about a stored bet and a stored market.\<close>

lemma poolInvariant_bet:
  assumes "poolInvariant s" and "(k, b) \<in> set (st_bets s)"
  shows "b_id b = k" and "b_marketId b \<in> fst ` set (st_markets s)"
    and "(b_id b, betCore b) \<in> set (cores betCore (st_bets s))"
proof -
  have mem: "(k, b_id b, b_marketId b, b_amount b) \<in> set (cores betCore (st_bets s))"
    using cores_mem [OF assms(2), of betCore] by (simp add: betCore_def)
  have "\<forall>(k, i, m, a) \<in> set (cores betCore (st_bets s)). i = k \<and> m \<in> fst ` set (cores marketCore (st_markets s))"
    using assms(1) by (simp add: poolInvariant_def ledgerInv_def)
  with mem have "b_id b = k \<and> b_marketId b \<in> fst ` set (cores marketCore (st_markets s))" by fast
  moreover have "fst ` set (cores marketCore (st_markets s)) = fst ` set (st_markets s)"
    by (metis cores_keys set_map)
  ultimately show "b_id b = k" and "b_marketId b \<in> fst ` set (st_markets s)" by simp_all
  then show "(b_id b, betCore b) \<in> set (cores betCore (st_bets s))"
    using cores_mem [OF assms(2), of betCore] by simp
qed

lemma poolInvariant_market:
  assumes "poolInvariant s" and "(k, m) \<in> set (st_markets s)"
  shows "m_id m = k" and "m_totalPool m = stakedOn k (cores betCore (st_bets s))"
    and "(m_id m, marketCore m) \<in> set (cores marketCore (st_markets s))"
proof -
  have mem: "(k, m_id m, m_totalPool m) \<in> set (cores marketCore (st_markets s))"
    using cores_mem [OF assms(2), of marketCore] by (simp add: marketCore_def)
  have "\<forall>(k, i, p) \<in> set (cores marketCore (st_markets s)). i = k \<and> p = stakedOn k (cores betCore (st_bets s))"
    using assms(1) by (simp add: poolInvariant_def ledgerInv_def)
  with mem have "m_id m = k \<and> m_totalPool m = stakedOn k (cores betCore (st_bets s))" by fast
  then show "m_id m = k" and "m_totalPool m = stakedOn k (cores betCore (st_bets s))" by simp_all
  then show "(m_id m, marketCore m) \<in> set (cores marketCore (st_markets s))"
    using cores_mem [OF assms(2), of marketCore] by simp
qed

lemma poolInvariant_distinct:
  "poolInvariant s \<Longrightarrow> distinct (map fst (st_bets s)) \<and> distinct (map fst (st_markets s))"
  by (simp add: poolInvariant_def ledgerInv_def)

lemma ledgerInv_create:
  assumes "ledgerInv bc mc" and "new \<notin> fst ` set mc"
  shows "ledgerInv bc (mc @ [(new, new, Fin 0)])"
proof -
  have refs: "\<forall>(k, i, m, a) \<in> set bc. m \<in> fst ` set mc"
    using assms(1) by (auto simp: ledgerInv_def)
  then have "\<forall>(k, i, m, a) \<in> set bc. m \<noteq> new" using assms(2) by fast
  then have "stakedOn new bc = Fin 0" by (rule stakedOn_unreferenced)
  then show ?thesis using assms by (auto simp: ledgerInv_def)
qed

lemma ledgerInv_place:
  assumes inv: "ledgerInv bc mc" and fresh: "new \<notin> fst ` set bc" and mem: "(kM, kM, p) \<in> set mc"
  shows "ledgerInv (bc @ [(new, new, kM, a)]) (AList.update kM (kM, fadd p a) mc)"
proof -
  let ?bc' = "bc @ [(new, new, kM, a)]"
  let ?mc' = "AList.update kM (kM, fadd p a) mc"
  have dm: "distinct (map fst mc)" using inv by (simp add: ledgerInv_def)
  have dm': "distinct (map fst ?mc')" using dm by (rule distinct_update)
  have db': "distinct (map fst ?bc')" using inv fresh by (simp add: ledgerInv_def)
  have keys: "fst ` set ?mc' = fst ` set mc" using mem by (force simp: dom_update)
  have refs: "\<forall>(k, i, m, a) \<in> set ?bc'. i = k \<and> m \<in> fst ` set ?mc'"
    using inv mem unfolding keys by (force simp: ledgerInv_def)
  have pools: "\<forall>(k, i, q) \<in> set ?mc'. i = k \<and> q = stakedOn k ?bc'"
  proof (clarify)
    fix k i q
    assume "(k, i, q) \<in> set ?mc'"
    then have look: "map_of ?mc' k = Some (i, q)" using dm' by simp
    show "i = k \<and> q = stakedOn k ?bc'"
    proof (cases "k = kM")
      case True
      then have "i = kM" "q = fadd p a" using look by (simp_all add: update_conv')
      moreover have "p = stakedOn kM bc" using inv mem by (auto simp: ledgerInv_def)
      ultimately show ?thesis using True by (simp add: stakedOn_append)
    next
      case False
      then have "map_of mc k = Some (i, q)" using look by (simp add: update_conv')
      then have "(k, i, q) \<in> set mc" by (rule map_of_SomeD)
      then have "i = k \<and> q = stakedOn k bc" using inv by (auto simp: ledgerInv_def)
      then show ?thesis using False by (simp add: stakedOn_append)
    qed
  qed
  show ?thesis using db' dm' refs pools by (simp add: ledgerInv_def)
qed

lemma poolInvariant_new:
  "poolInvariant (PredictSDK \<lparr>cfg_defaultFeeRate = fee, cfg_storage = None, cfg_initialBalance = bal\<rparr>)"
  by (simp add: poolInvariant_def ledgerInv_def PredictSDK_def MemoryStorage_def cores_def)

lemma poolInvariant_clear: "poolInvariant (clear s)"
  by (simp add: poolInvariant_def ledgerInv_def clear_def storage_clear_def cores_def)

lemma poolInvariant_getOrCreateUser:
  "poolInvariant s \<Longrightarrow> poolInvariant (snd (getOrCreateUser userId now s))"
  by (rule poolInvariant_cores) simp_all

lemma poolInvariant_addFunds:
  "poolInvariant s \<Longrightarrow> poolInvariant (snd (addFunds userId amount now s))"
proof -
  assume inv: "poolInvariant s"
  have "st_bets (snd (addFunds userId amount now s)) = st_bets s"
    and "st_markets (snd (addFunds userId amount now s)) = st_markets s"
    by (simp_all add: addFunds_def split_beta)
  then show ?thesis using inv by (simp add: poolInvariant_def)
qed

lemma saveMarket_same_core:
  assumes inv: "poolInvariant s" and stored: "(k, m) \<in> set (st_markets s)"
    and same: "marketCore m' = marketCore m"
  shows "cores marketCore (st_markets (storage_saveMarket m' s)) = cores marketCore (st_markets s)"
proof -
  have "(m_id m', marketCore m') \<in> set (cores marketCore (st_markets s))"
    using poolInvariant_market(3) [OF inv stored] same by (simp add: marketCore_def)
  then show ?thesis
    using poolInvariant_distinct [OF inv] by (simp add: storage_saveMarket_def cores_update_known)
qed

lemma poolInvariant_getMarket:
  assumes inv: "poolInvariant s"
  shows "poolInvariant (snd (getMarket marketId s))"
proof (cases "storage_getMarket s marketId")
  case None
  then show ?thesis using inv by (simp add: getMarket_def)
next
  case (Some m)
  let ?m' = "m\<lparr>m_outcomes := calculateOdds m\<rparr>"
  have stored: "(marketId, m) \<in> set (st_markets s)"
    using Some by (simp add: storage_getMarket_def map_of_SomeD)
  have "(marketId, marketCore ?m') \<in> set (cores marketCore (st_markets s))"
    using cores_mem [OF stored, of marketCore] by (simp add: marketCore_def)
  then have "cores marketCore (AList.update marketId ?m' (st_markets s))
               = cores marketCore (st_markets s)"
    using poolInvariant_distinct [OF inv] by (simp add: cores_update_known)
  then show ?thesis using Some inv by (simp add: getMarket_def Let_def poolInvariant_def)
qed

lemma poolInvariant_closeMarket:
  assumes inv: "poolInvariant s"
  shows "poolInvariant (snd (closeMarket marketId s))"
proof (cases "storage_getMarket s marketId")
  case None
  then show ?thesis using inv by (simp add: closeMarket_def)
next
  case (Some m)
  then have stored: "(marketId, m) \<in> set (st_markets s)"
    by (simp add: storage_getMarket_def map_of_SomeD)
  have "cores marketCore (st_markets (storage_saveMarket (m\<lparr>m_status := CLOSED\<rparr>) s))
          = cores marketCore (st_markets s)"
    by (rule saveMarket_same_core [OF inv stored]) (simp add: marketCore_def)
  then have "poolInvariant (storage_saveMarket (m\<lparr>m_status := CLOSED\<rparr>) s)"
    using inv by (simp add: poolInvariant_def)
  then show ?thesis using Some by (simp add: closeMarket_def Let_def)
qed

lemma poolInvariant_checkAndCloseExpiredMarkets:
  assumes inv: "poolInvariant s"
  shows "poolInvariant (snd (checkAndCloseExpiredMarkets now s))"
proof -
  have known: "\<forall>m \<in> set (storage_getAllMarkets s). (m_id m, marketCore m) \<in> set (cores marketCore (st_markets s))"
    using poolInvariant_market(3) [OF inv] by (auto simp: storage_getAllMarkets_def)
  have dm: "distinct (map fst (st_markets s))" using poolInvariant_distinct [OF inv] by simp
  have "cores marketCore (st_markets (snd (closeExpiredLoop now (storage_getAllMarkets s) [] s)))
           = cores marketCore (st_markets s) \<and>
         st_bets (snd (closeExpiredLoop now (storage_getAllMarkets s) [] s)) = st_bets s"
    using dm known by (rule closeExpiredLoop_cores)
  then show ?thesis
    using inv by (simp add: poolInvariant_def checkAndCloseExpiredMarkets_def)
qed

lemma marketBets_known:
  assumes inv: "poolInvariant s"
  shows "\<forall>bet \<in> set (filter P (storage_getAllBets s)).
           (b_id bet, betCore bet) \<in> set (cores betCore (st_bets s))"
  using poolInvariant_bet(3) [OF inv] by (auto simp: storage_getAllBets_def)

lemma poolInvariant_resolveMarket:
  assumes inv: "poolInvariant s"
  shows "poolInvariant (snd (resolveMarket input now s))"
proof (cases "storage_getMarket s (rm_marketId input)")
  case None
  then show ?thesis using inv by (simp add: resolveMarket_def)
next
  case (Some m)
  show ?thesis
  proof (cases "validateResolveMarket input m")
    case (Inl e)
    then show ?thesis using Some inv by (simp add: resolveMarket_def)
  next
    case (Inr u)
    let ?m' = "m\<lparr>m_status := RESOLVED, m_resolvedAt := Some now,
                  m_winningOutcomeId := Some (rm_winningOutcomeId input)\<rparr>"
    let ?s1 = "storage_saveMarket ?m' s"
    let ?bets = "filter (\<lambda>b. b_marketId b = m_id m) (storage_getAllBets s)"
    let ?payouts = "calculatePayouts m (rm_winningOutcomeId input) (map stakeOfBet ?bets)"
    let ?s2 = "resolveLoop (rm_winningOutcomeId input) ?payouts now ?bets ?s1"
    have stored: "(rm_marketId input, m) \<in> set (st_markets s)"
      using Some by (simp add: storage_getMarket_def map_of_SomeD)
    have c1: "cores marketCore (st_markets ?s1) = cores marketCore (st_markets s)"
      by (rule saveMarket_same_core [OF inv stored]) (simp add: marketCore_def)
    have d1: "distinct (map fst (st_bets ?s1))" using poolInvariant_distinct [OF inv] by simp
    have k1: "\<forall>bet \<in> set ?bets. (b_id bet, betCore bet) \<in> set (cores betCore (st_bets ?s1))"
      using marketBets_known [OF inv] by simp
    have "cores betCore (st_bets ?s2) = cores betCore (st_bets ?s1) \<and> st_markets ?s2 = st_markets ?s1"
      using d1 k1 by (rule resolveLoop_cores)
    then have "poolInvariant ?s2"
      using inv c1 by (simp add: poolInvariant_def)
    moreover have "snd (resolveMarket input now s) = ?s2"
      using Some Inr by (simp add: resolveMarket_def Let_def)
    ultimately show ?thesis by simp
  qed
qed

lemma poolInvariant_cancelMarket:
  assumes inv: "poolInvariant s"
  shows "poolInvariant (snd (cancelMarket marketId reason now s))"
proof (cases "storage_getMarket s marketId")
  case None
  then show ?thesis using inv by (simp add: cancelMarket_def)
next
  case (Some m)
  show ?thesis
  proof (cases "m_status m = RESOLVED")
    case True
    then show ?thesis using Some inv by (simp add: cancelMarket_def)
  next
    case False
    let ?bets = "filter (\<lambda>b. b_marketId b = m_id m) (storage_getAllBets s)"
    let ?s1 = "cancelLoop now ?bets s"
    let ?m1 = "m\<lparr>m_status := CANCELLED\<rparr>"
    let ?m2 = "case reason of None \<Rightarrow> ?m1
               | Some r \<Rightarrow> if r \<noteq> [] then ?m1\<lparr>m_cancelReason := Some r\<rparr> else ?m1"
    have stored: "(marketId, m) \<in> set (st_markets s)"
      using Some by (simp add: storage_getMarket_def map_of_SomeD)
    have loop: "cores betCore (st_bets ?s1) = cores betCore (st_bets s) \<and> st_markets ?s1 = st_markets s"
    proof (rule cancelLoop_cores)
      show "distinct (map fst (st_bets s))" using poolInvariant_distinct [OF inv] by simp
      show "\<forall>bet \<in> set ?bets. (b_id bet, betCore bet) \<in> set (cores betCore (st_bets s))"
        by (rule marketBets_known [OF inv])
    qed
    then have inv1: "poolInvariant ?s1" using inv by (simp add: poolInvariant_def)
    have stored1: "(marketId, m) \<in> set (st_markets ?s1)" using stored loop by simp
    have core2: "marketCore ?m2 = marketCore m"
      by (simp add: marketCore_def split: option.splits)
    have "cores marketCore (st_markets (storage_saveMarket ?m2 ?s1)) = cores marketCore (st_markets ?s1)"
      by (rule saveMarket_same_core [OF inv1 stored1 core2])
    then have "poolInvariant (storage_saveMarket ?m2 ?s1)"
      using inv1 by (simp add: poolInvariant_def)
    moreover have "snd (cancelMarket marketId reason now s) = storage_saveMarket ?m2 ?s1"
      using Some False by (simp add: cancelMarket_def Let_def)
    ultimately show ?thesis by simp
  qed
qed

lemma poolInvariant_createMarket:
  assumes inv: "poolInvariant s" and fresh: "storage_getMarket s newMarketId = None"
  shows "poolInvariant (snd (createMarket input newMarketId newOutcomeId now s))"
proof (cases "validateCreateMarketInput input now")
  case (Inl e)
  then show ?thesis using inv by (simp add: createMarket_def)
next
  case (Inr u)
  have notin: "newMarketId \<notin> fst ` set (st_markets s)"
    using fresh by (simp add: storage_getMarket_def map_of_eq_None_iff)
  then have notin': "newMarketId \<notin> fst ` set (cores marketCore (st_markets s))"
    by (metis cores_keys set_map)
  let ?s' = "snd (createMarket input newMarketId newOutcomeId now s)"
  have mk: "cores marketCore (st_markets ?s')
              = AList.update newMarketId (newMarketId, Fin 0) (cores marketCore (st_markets s))"
    and bt: "st_bets ?s' = st_bets s"
    using Inr
    by (simp_all add: createMarket_def Let_def storage_saveMarket_def cores_update marketCore_def)
  have "cores marketCore (st_markets ?s')
          = cores marketCore (st_markets s) @ [(newMarketId, newMarketId, Fin 0)]"
    using notin' by (simp add: mk update_fresh)
  then show ?thesis
    using inv notin' bt
      ledgerInv_create [of "cores betCore (st_bets s)" "cores marketCore (st_markets s)" newMarketId]
    by (simp add: poolInvariant_def)
qed

lemma poolInvariant_placeBet:
  assumes inv: "poolInvariant s" and fresh: "storage_getBet s newBetId = None"
  shows "poolInvariant (snd (placeBet input newBetId now s))"
proof (cases "storage_getMarket s (pb_marketId input)")
  case None
  then show ?thesis using inv by (simp add: placeBet_def)
next
  case (Some m)
  let ?kM = "pb_marketId input"
  let ?a = "pb_amount input"
  let ?u = "getOrCreateUser (pb_bettorId input) now s"
  have stored: "(?kM, m) \<in> set (st_markets s)"
    using Some by (simp add: storage_getMarket_def map_of_SomeD)
  have mid: "m_id m = ?kM" using poolInvariant_market(1) [OF inv stored] .
  show ?thesis
  proof (cases "validatePlaceBet input m now")
    case (Inl e)
    then show ?thesis using Some inv by (simp add: placeBet_def)
  next
    case (Inr u)
    show ?thesis
    proof (cases "flt (u_balance (fst ?u)) ?a")
      case True
      then have "snd (placeBet input newBetId now s) = snd ?u"
        using Some Inr by (simp add: placeBet_def split_beta)
      then show ?thesis using inv by (simp add: poolInvariant_getOrCreateUser)
    next
      case False
      let ?s' = "snd (placeBet input newBetId now s)"
      let ?bc = "cores betCore (st_bets s)"
      let ?mc = "cores marketCore (st_markets s)"
      have notin: "newBetId \<notin> fst ` set ?bc"
        using fresh by (metis cores_keys set_map storage_getBet_def map_of_eq_None_iff)
      have "cores betCore (st_bets ?s') = AList.update newBetId (newBetId, m_id m, ?a) ?bc"
        using Some Inr False
        by (simp add: placeBet_def split_beta Let_def storage_saveBet_def cores_update betCore_def)
      then have bc': "cores betCore (st_bets ?s') = ?bc @ [(newBetId, newBetId, ?kM, ?a)]"
        using notin mid by (simp add: update_fresh)
      have "cores marketCore (st_markets ?s')
              = AList.update (m_id m) (m_id m, fadd (m_totalPool m) ?a) ?mc"
        using Some Inr False
        by (simp add: placeBet_def split_beta Let_def storage_saveMarket_def cores_update
            marketCore_def)
      then have mc': "cores marketCore (st_markets ?s')
                   = AList.update ?kM (?kM, fadd (m_totalPool m) ?a) ?mc"
        using mid by simp
      have mem: "(?kM, ?kM, m_totalPool m) \<in> set ?mc"
        using cores_mem [OF stored, of marketCore] mid by (simp add: marketCore_def)
      have "ledgerInv (?bc @ [(newBetId, newBetId, ?kM, ?a)])
              (AList.update ?kM (?kM, fadd (m_totalPool m) ?a) ?mc)"
      proof (rule ledgerInv_place)
        show "ledgerInv ?bc ?mc" using inv by (simp add: poolInvariant_def)
        show "newBetId \<notin> fst ` set ?bc" by (rule notin)
        show "(?kM, ?kM, m_totalPool m) \<in> set ?mc" by (rule mem)
      qed
      then show ?thesis unfolding poolInvariant_def bc' mc' .
    qed
  qed
qed

lemma reachable_poolInvariant: "reachable s \<Longrightarrow> poolInvariant s"
proof (induction rule: reachable.induct)
  case (reach_new fee bal)
  show ?case by (rule poolInvariant_new)
next
  case (reach_createMarket s newMarketId input newOutcomeId now)
  then show ?case by (simp add: poolInvariant_createMarket)
next
  case (reach_getMarket s marketId)
  then show ?case by (simp add: poolInvariant_getMarket)
next
  case (reach_closeMarket s marketId)
  then show ?case by (simp add: poolInvariant_closeMarket)
next
  case (reach_resolveMarket s rinput now)
  then show ?case by (simp add: poolInvariant_resolveMarket)
next
  case (reach_cancelMarket s marketId reason now)
  then show ?case by (simp add: poolInvariant_cancelMarket)
next
  case (reach_placeBet s newBetId binput now)
  then show ?case by (simp add: poolInvariant_placeBet)
next
  case (reach_addFunds s userId amount now)
  then show ?case by (simp add: poolInvariant_addFunds)
next
  case (reach_getOrCreateUser s userId now)
  then show ?case by (simp add: poolInvariant_getOrCreateUser)
next
  case (reach_checkAndCloseExpiredMarkets s now)
  then show ?case by (simp add: poolInvariant_checkAndCloseExpiredMarkets)
next
  case (reach_clear s)
  show ?case by (rule poolInvariant_clear)
qed

section \<open>Resolution, cancellation and bet placement\<close>

lemma exCancelled_eq:
  "exCancelled =
      \<lparr>st_markets = [(''m1'', (mkMarket ''m1''
          [(mkOutcome ''A'' (Fin 100) (Fin 1))
             \<lparr>o_label := ''Yes'', o_odds := rd (98 / 100), o_probability := Fin 1\<rparr>,
           (mkOutcome ''B'' (Fin 0) (Fin 0))\<lparr>o_label := ''No''\<rparr>]
          CANCELLED (Fin 100) (rd (2 / 100)) None))],
       st_bets = [(''b1'', (mkBet ''b1'' ''m1'' ''u1'' ''A'' (Fin 100) refunded)
             \<lparr>b_potentialPayout := rd (102 / 100), b_payout := Some (Fin 100), b_createdAt := Fin 1\<rparr>)],
       st_users = [(''u1'', (mkUser ''u1'' (Fin 1000))
             \<lparr>u_totalBets := Fin 100, u_totalWon := Fin 100, u_createdAt := Fin 1\<rparr>)],
       sdk_defaultFeeRate = rd (2 / 100), sdk_initialBalance = Fin 1000\<rparr>"
  by (simp add: exCancelled_def exCancelled_run)

lemma exRich_eq:
  "exRich =
     \<lparr>st_markets = [(''m1'', (mkMarket ''m1''
          [(mkOutcome ''A'' (Fin 0) (Fin 0))\<lparr>o_label := ''Yes''\<rparr>,
           (mkOutcome ''B'' (Fin 0) (Fin 0))\<lparr>o_label := ''No''\<rparr>]
          OPEN (Fin 0) (rd (2 / 100)) None))],
      st_bets = [], st_users = [], sdk_defaultFeeRate = rd (2 / 100),
      sdk_initialBalance = Fin (10 ^ 16)\<rparr>"
  by (simp add: exRich_def sdk_defs ex_defs num_eval enumerate_eq_zip split del: if_split)

lemma exBigBet_run:
  "placeBet \<lparr>pb_marketId = ''m1'', pb_bettorId = ''u1'', pb_outcomeId = ''A'',
             pb_amount = Fin (2 ^ 53)\<rparr> ''b1'' (Fin 1) exRich =
     (Inr ((mkBet ''b1'' ''m1'' ''u1'' ''A'' (Fin (2 ^ 53)) confirmed)
             \<lparr>b_potentialPayout := rd (102 / 100), b_createdAt := Fin 1\<rparr>),
      \<lparr>st_markets = [(''m1'', (mkMarket ''m1''
          [(mkOutcome ''A'' (Fin (2 ^ 53)) (Fin 1))
             \<lparr>o_label := ''Yes'', o_odds := rd (98 / 100), o_probability := Fin 1\<rparr>,
           (mkOutcome ''B'' (Fin 0) (Fin 0))\<lparr>o_label := ''No''\<rparr>]
          OPEN (Fin (2 ^ 53)) (rd (2 / 100)) None))],
       st_bets = [(''b1'', (mkBet ''b1'' ''m1'' ''u1'' ''A'' (Fin (2 ^ 53)) confirmed)
             \<lparr>b_potentialPayout := rd (102 / 100), b_createdAt := Fin 1\<rparr>)],
       st_users = [(''u1'', (mkUser ''u1'' (Fin (10 ^ 16 - 2 ^ 53)))
             \<lparr>u_totalBets := Fin (2 ^ 53), u_createdAt := Fin 1\<rparr>)],
       sdk_defaultFeeRate = rd (2 / 100), sdk_initialBalance = Fin (10 ^ 16)\<rparr>)"
  by (simp add: exRich_eq sdk_defs ex_defs num_eval split del: if_split)

lemma exBigBet_eq:
  "exBigBet =
      \<lparr>st_markets = [(''m1'', (mkMarket ''m1''
          [(mkOutcome ''A'' (Fin (2 ^ 53)) (Fin 1))
             \<lparr>o_label := ''Yes'', o_odds := rd (98 / 100), o_probability := Fin 1\<rparr>,
           (mkOutcome ''B'' (Fin 0) (Fin 0))\<lparr>o_label := ''No''\<rparr>]
          OPEN (Fin (2 ^ 53)) (rd (2 / 100)) None))],
       st_bets = [(''b1'', (mkBet ''b1'' ''m1'' ''u1'' ''A'' (Fin (2 ^ 53)) confirmed)
             \<lparr>b_potentialPayout := rd (102 / 100), b_createdAt := Fin 1\<rparr>)],
       st_users = [(''u1'', (mkUser ''u1'' (Fin (10 ^ 16 - 2 ^ 53)))
             \<lparr>u_totalBets := Fin (2 ^ 53), u_createdAt := Fin 1\<rparr>)],
       sdk_defaultFeeRate = rd (2 / 100), sdk_initialBalance = Fin (10 ^ 16)\<rparr>"
  unfolding exBigBet_def exBigBet_run by simp

lemma exBigBetPlusOne_run:
  "placeBet exOneMore ''b2'' (Fin 2) exBigBet =
     (Inr ((mkBet ''b2'' ''m1'' ''u1'' ''A'' (Fin 1) confirmed)
             \<lparr>b_potentialPayout := rd (102 / 100), b_createdAt := Fin 2,
              b_oddsAtBet := rd (98 / 100)\<rparr>),
      \<lparr>st_markets = [(''m1'', (mkMarket ''m1''
          [(mkOutcome ''A'' (Fin (2 ^ 53)) (Fin 2))
             \<lparr>o_label := ''Yes'', o_odds := rd (98 / 100), o_probability := Fin 1\<rparr>,
           (mkOutcome ''B'' (Fin 0) (Fin 0))\<lparr>o_label := ''No''\<rparr>]
          OPEN (Fin (2 ^ 53)) (rd (2 / 100)) None))],
       st_bets = [(''b1'', (mkBet ''b1'' ''m1'' ''u1'' ''A'' (Fin (2 ^ 53)) confirmed)
             \<lparr>b_potentialPayout := rd (102 / 100), b_createdAt := Fin 1\<rparr>),
                  (''b2'', (mkBet ''b2'' ''m1'' ''u1'' ''A'' (Fin 1) confirmed)
             \<lparr>b_potentialPayout := rd (102 / 100), b_createdAt := Fin 2,
              b_oddsAtBet := rd (98 / 100)\<rparr>)],
       st_users = [(''u1'', (mkUser ''u1'' (Fin (10 ^ 16 - 2 ^ 53 - 1)))
             \<lparr>u_totalBets := Fin (2 ^ 53), u_createdAt := Fin 1\<rparr>)],
       sdk_defaultFeeRate = rd (2 / 100), sdk_initialBalance = Fin (10 ^ 16)\<rparr>)"
  by (simp add: exBigBet_eq sdk_defs ex_defs num_eval split del: if_split)

lemma exBigBetPlusOne_eq:
  "exBigBetPlusOne =
      \<lparr>st_markets = [(''m1'', (mkMarket ''m1''
          [(mkOutcome ''A'' (Fin (2 ^ 53)) (Fin 2))
             \<lparr>o_label := ''Yes'', o_odds := rd (98 / 100), o_probability := Fin 1\<rparr>,
           (mkOutcome ''B'' (Fin 0) (Fin 0))\<lparr>o_label := ''No''\<rparr>]
          OPEN (Fin (2 ^ 53)) (rd (2 / 100)) None))],
       st_bets = [(''b1'', (mkBet ''b1'' ''m1'' ''u1'' ''A'' (Fin (2 ^ 53)) confirmed)
             \<lparr>b_potentialPayout := rd (102 / 100), b_createdAt := Fin 1\<rparr>),
                  (''b2'', (mkBet ''b2'' ''m1'' ''u1'' ''A'' (Fin 1) confirmed)
             \<lparr>b_potentialPayout := rd (102 / 100), b_createdAt := Fin 2,
              b_oddsAtBet := rd (98 / 100)\<rparr>)],
       st_users = [(''u1'', (mkUser ''u1'' (Fin (10 ^ 16 - 2 ^ 53 - 1)))
             \<lparr>u_totalBets := Fin (2 ^ 53), u_createdAt := Fin 1\<rparr>)],
       sdk_defaultFeeRate = rd (2 / 100), sdk_initialBalance = Fin (10 ^ 16)\<rparr>"
  unfolding exBigBetPlusOne_def exBigBetPlusOne_run by simp

text \<open>
  C1, evaluated. \<open>resolveMarket\<close> credits the bettor's whole payout-map amount once for
  each winning bet of the bettor: with two winning bets of 50 the map assigns \<open>u1\<close> 196 and
  the balance grows by 392. Where the winning outcome has no bets the map assigns \<open>u1\<close> the
  refund of 100, no bet is a winner, and the balance does not change.
\<close>

theorem resolveMarket_credits_per_bet:
  "map_sum id m_status (fst (resolveMarket exResolveInput (Fin 5) exResolved)) = Inr RESOLVED \<and>
   map_of (calculatePayouts
      (mkMarket ''m1'' [mkOutcome ''A'' (Fin 100) (Fin 2), mkOutcome ''B'' (Fin 100) (Fin 1)]
         RESOLVED (Fin 200) (rd (2 / 100)) (Some ''A''))
      ''A'' (map stakeOfBet (getBetsByMarket exResolved ''m1''))) ''u1'' = Some (Fin 196) \<and>
   balanceOf exResolved ''u1'' = Fin 850 \<and>
   balanceOf (snd (resolveMarket exResolveInput (Fin 5) exResolved)) ''u1'' = Fin (850 + 392) \<and>
   map_sum id m_status (fst (resolveMarket exResolveInput (Fin 5) exZeroStake)) = Inr RESOLVED \<and>
   map_of (calculatePayouts
      (mkMarket ''m1'' [mkOutcome ''A'' (Fin 0) (Fin 0), mkOutcome ''B'' (Fin 100) (Fin 1)]
         RESOLVED (Fin 100) (rd (2 / 100)) (Some ''A''))
      ''A'' (map stakeOfBet (getBetsByMarket exZeroStake ''m1''))) ''u1'' = Some (Fin 100) \<and>
   balanceOf exZeroStake ''u1'' = Fin 900 \<and>
   balanceOf (snd (resolveMarket exResolveInput (Fin 5) exZeroStake)) ''u1'' = Fin 900"
  by (simp add: sdk_defs ex_defs num_eval split del: if_split)

text \<open>
  C3, evaluated. \<open>closeMarket\<close> sets the status to \<open>CLOSED\<close> whatever it was: a market
  cancelled through the SDK, and a resolved market of a given storage, both become \<open>CLOSED\<close>.
\<close>

theorem closeMarket_reopens_terminal:
  "map_option m_status (storage_getMarket exCancelled ''m1'') = Some CANCELLED \<and>
   map_option m_status (storage_getMarket (snd (closeMarket ''m1'' exCancelled)) ''m1'') = Some CLOSED \<and>
   map_option m_status (storage_getMarket exResolved ''m1'') = Some RESOLVED \<and>
   map_option m_status (storage_getMarket (snd (closeMarket ''m1'' exResolved)) ''m1'') = Some CLOSED"
  by (simp add: exCancelled_eq sdk_defs ex_defs Let_def split del: if_split)

text \<open>
  C5, evaluated. The second \<open>cancelMarket\<close> on the same market returns the market again
  (no \<open>CONFLICT\<close>) and refunds the bet a second time: the bettor's balance goes from 900 to
  1000 with the first call and to 1100 with the second.
\<close>

theorem cancelMarket_twice_refunds_twice:
  "map_sum id m_status (fst (cancelMarket ''m1'' None (Fin 2) exBetPlaced)) = Inr CANCELLED \<and>
   balanceOf exBetPlaced ''u1'' = Fin 900 \<and>
   balanceOf exCancelled ''u1'' = Fin 1000 \<and>
   map_sum id m_status (fst (cancelMarket ''m1'' None (Fin 3) exCancelled)) = Inr CANCELLED \<and>
   balanceOf (snd (cancelMarket ''m1'' None (Fin 3) exCancelled)) ''u1'' = Fin 1100"
proof -
  have "balanceOf exBetPlaced ''u1'' = Fin 900"
    by (simp add: exBetPlaced_eq balanceOf_def storage_getUser_def ex_defs)
  moreover have "cancelMarket ''m1'' None (Fin 3) exCancelled
      = (Inr (mkMarket ''m1''
          [(mkOutcome ''A'' (Fin 100) (Fin 1))
             \<lparr>o_label := ''Yes'', o_odds := rd (98 / 100), o_probability := Fin 1\<rparr>,
           (mkOutcome ''B'' (Fin 0) (Fin 0))\<lparr>o_label := ''No''\<rparr>]
          CANCELLED (Fin 100) (rd (2 / 100)) None),
         exCancelled\<lparr>st_users := [(''u1'', (mkUser ''u1'' (Fin 1100))
             \<lparr>u_totalBets := Fin 100, u_totalWon := Fin 200, u_createdAt := Fin 1\<rparr>)]\<rparr>)"
    by (simp add: exCancelled_eq sdk_defs ex_defs num_eval split del: if_split)
  ultimately show ?thesis
    by (simp add: exCancelled_run exCancelled_eq balanceOf_def storage_getUser_def ex_defs)
qed




text \<open>
  C2. \<open>validateResolveMarket\<close> succeeds exactly when the market is already \<open>RESOLVED\<close>, has
  a winning outcome id set and the input's winning outcome id is the id of one of the market's
  outcomes; any other case throws \<open>INVALID_INPUT\<close>. So \<open>resolveMarket\<close> on a stored market
  that is \<open>OPEN\<close> or \<open>CLOSED\<close> throws \<open>INVALID_INPUT\<close> and leaves the state as it was.
\<close>

theorem validateResolveMarket_iff:
  "(validateResolveMarket input market = Inr () \<longleftrightarrow>
      m_status market = RESOLVED \<and> m_winningOutcomeId market \<noteq> None \<and>
      rm_winningOutcomeId input \<in> o_id ` set (m_outcomes market)) \<and>
   (validateResolveMarket input market \<noteq> Inr () \<longrightarrow>
      validateResolveMarket input market = Inl INVALID_INPUT) \<and>
   (storage_getMarket s (rm_marketId input) = Some market \<and>
    (m_status market = OPEN \<or> m_status market = CLOSED) \<longrightarrow>
      resolveMarket input now s = (Inl INVALID_INPUT, s))"
  by (auto simp: validateResolveMarket_def resolveMarket_def findOutcome_None_iff)

theorem validateResolveMarket_iff_witness:
  "validateResolveMarket exResolveInput
      (mkMarket ''m1'' [mkOutcome ''A'' (Fin 100) (Fin 2), mkOutcome ''B'' (Fin 100) (Fin 1)]
         RESOLVED (Fin 200) (rd (2 / 100)) (Some ''A''))
     = Inr () \<and>
   validateResolveMarket exResolveInput
      (mkMarket ''m1'' [mkOutcome ''A'' (Fin 100) (Fin 2), mkOutcome ''B'' (Fin 100) (Fin 1)]
         RESOLVED (Fin 200) (rd (2 / 100)) None)
     = Inl INVALID_INPUT \<and>
   map_option m_status (storage_getMarket exCreated (rm_marketId exResolveInput)) = Some OPEN \<and>
   resolveMarket exResolveInput (Fin 5) exCreated = (Inl INVALID_INPUT, exCreated)"
  using validateResolveMarket_iff
      [of exResolveInput
          "mkMarket ''m1'' [mkOutcome ''A'' (Fin 100) (Fin 2), mkOutcome ''B'' (Fin 100) (Fin 1)]
             RESOLVED (Fin 200) (rd (2 / 100)) (Some ''A'')"]
    validateResolveMarket_iff
      [of exResolveInput
          "mkMarket ''m1'' [mkOutcome ''A'' (Fin 100) (Fin 2), mkOutcome ''B'' (Fin 100) (Fin 1)]
             RESOLVED (Fin 200) (rd (2 / 100)) None"]
    validateResolveMarket_iff
      [of exResolveInput "the (storage_getMarket exCreated ''m1'')" exCreated "Fin 5"]
  by (simp add: exCreated_eq ex_defs storage_getMarket_def)




section \<open>The pool of a market in the reachable states\<close>

lemma exCancelled_reachable: "reachable exCancelled"
proof -
  have r0: "reachable exNew" unfolding exNew_def by (rule reach_new)
  have "storage_getMarket exNew ''m1'' = None"
    by (simp add: exNew_def PredictSDK_def MemoryStorage_def storage_getMarket_def)
  with r0 have r1: "reachable exCreated" unfolding exCreated_def by (rule reach_createMarket)
  have "storage_getBet exCreated ''b1'' = None"
    by (simp add: exCreated_eq storage_getBet_def)
  with r1 have r2: "reachable exBetPlaced" unfolding exBetPlaced_def by (rule reach_placeBet)
  then show ?thesis unfolding exCancelled_def by (rule reach_cancelMarket)
qed

lemma exBigBetPlusOne_reachable: "reachable exBigBetPlusOne"
proof -
  let ?new = "PredictSDK \<lparr>cfg_defaultFeeRate = None, cfg_storage = None,
                           cfg_initialBalance = Some (Fin (10 ^ 16))\<rparr>"
  have r0: "reachable ?new" by (rule reach_new)
  have "storage_getMarket ?new ''m1'' = None"
    by (simp add: PredictSDK_def MemoryStorage_def storage_getMarket_def)
  with r0 have r1: "reachable exRich" unfolding exRich_def by (rule reach_createMarket)
  have "storage_getBet exRich ''b1'' = None"
    by (simp add: exRich_eq storage_getBet_def)
  with r1 have r2: "reachable exBigBet" unfolding exBigBet_def by (rule reach_placeBet)
  have "storage_getBet exBigBet ''b2'' = None"
    by (simp add: exBigBet_eq storage_getBet_def)
  with r2 show ?thesis unfolding exBigBetPlusOne_def by (rule reach_placeBet)
qed

text \<open>
  C4, as stated: in every reachable state a market's \<open>totalPool\<close> is the sum of the amounts
  of its bets that are not refunded. It fails after \<open>cancelMarket\<close>: the market created,
  bet on with 100 and cancelled keeps \<open>totalPool = 100\<close> while its only bet is refunded, so
  no amount is left to sum.
\<close>

theorem totalPool_nonrefunded_counterexample:
  "reachable exCancelled \<and>
   map_option m_totalPool (storage_getMarket exCancelled ''m1'') = Some (Fin 100) \<and>
   map b_amount (getBetsByMarket exCancelled ''m1'') = [Fin 100] \<and>
   map b_status (getBetsByMarket exCancelled ''m1'') = [refunded] \<and>
   filter (\<lambda>b. b_status b \<noteq> refunded) (getBetsByMarket exCancelled ''m1'') = []"
proof -
  have "map_option m_totalPool (storage_getMarket exCancelled ''m1'') = Some (Fin 100)"
    and "map b_amount (getBetsByMarket exCancelled ''m1'') = [Fin 100]"
    and "map b_status (getBetsByMarket exCancelled ''m1'') = [refunded]"
    and "filter (\<lambda>b. b_status b \<noteq> refunded) (getBetsByMarket exCancelled ''m1'') = []"
    by (simp_all add: exCancelled_eq storage_getMarket_def getBetsByMarket_def
        storage_getAllBets_def ex_defs)
  then show ?thesis using exCancelled_reachable by simp
qed

text \<open>
  C4, amended. In every reachable state a stored market's \<open>totalPool\<close> is the sum of the
  amounts of all bets on that market, whatever their status, added one by one from 0 in the
  order the bets were placed, each addition rounded to a double. The reachable states are
  closed under every operation, so each operation preserves this: \<open>placeBet\<close> adds the
  amount to the pool and stores the bet, \<open>cancelMarket\<close> and \<open>resolveMarket\<close> change the
  status and payout of bets and neither an amount nor a pool.
\<close>

theorem totalPool_counts_all_bets:
  assumes "reachable s" and "storage_getMarket s marketId = Some market"
  shows "m_totalPool market = foldl fadd (Fin 0) (map b_amount (getBetsByMarket s marketId))"
proof -
  have inv: "poolInvariant s" using assms(1) by (rule reachable_poolInvariant)
  have stored: "(marketId, market) \<in> set (st_markets s)"
    using assms(2) by (simp add: storage_getMarket_def map_of_SomeD)
  show ?thesis
    using poolInvariant_market(2) [OF inv stored]
    by (simp add: stakedOn_bets getBetsByMarket_def storage_getAllBets_def)
qed

theorem totalPool_counts_all_bets_witness:
  "reachable exBigBetPlusOne \<and>
   map b_amount (getBetsByMarket exBigBetPlusOne ''m1'') = [Fin 9007199254740992, Fin 1] \<and>
   map_option m_totalPool (storage_getMarket exBigBetPlusOne ''m1'') = Some (Fin 9007199254740992) \<and>
   reachable exCancelled \<and>
   map b_amount (getBetsByMarket exCancelled ''m1'') = [Fin 100] \<and>
   map_option m_totalPool (storage_getMarket exCancelled ''m1'') = Some (Fin 100)"
proof -
  obtain m where g: "storage_getMarket exBigBetPlusOne ''m1'' = Some m"
    by (simp add: exBigBetPlusOne_eq storage_getMarket_def)
  have bets: "map b_amount (getBetsByMarket exBigBetPlusOne ''m1'') = [Fin 9007199254740992, Fin 1]"
    by (simp add: exBigBetPlusOne_eq getBetsByMarket_def storage_getAllBets_def ex_defs)
  have "m_totalPool m = foldl fadd (Fin 0) [Fin 9007199254740992, Fin 1]"
    using totalPool_counts_all_bets [OF exBigBetPlusOne_reachable g] by (simp only: bets)
  also have "\<dots> = Fin 9007199254740992"
    by (simp add: num_eval split del: if_split)
  finally have pool: "map_option m_totalPool (storage_getMarket exBigBetPlusOne ''m1'')
                        = Some (Fin 9007199254740992)"
    by (simp add: g)
  obtain m' where g': "storage_getMarket exCancelled ''m1'' = Some m'"
    by (simp add: exCancelled_eq storage_getMarket_def)
  have bets': "map b_amount (getBetsByMarket exCancelled ''m1'') = [Fin 100]"
    by (simp add: exCancelled_eq getBetsByMarket_def storage_getAllBets_def ex_defs)
  have "m_totalPool m' = foldl fadd (Fin 0) [Fin 100]"
    using totalPool_counts_all_bets [OF exCancelled_reachable g'] by (simp only: bets')
  then have pool': "map_option m_totalPool (storage_getMarket exCancelled ''m1'') = Some (Fin 100)"
    by (simp add: g' num_eval split del: if_split)
  show ?thesis
    using exBigBetPlusOne_reachable bets pool exCancelled_reachable bets' pool' by simp
qed

end
